theory Spec2Isabelle
  imports Main
begin

section \<open>Python strings\<close>

text \<open>
  A Python \<open>str\<close> is modelled as a \<open>string\<close>: a list of characters, each a code point
  in \<open>0..255\<close> (the Latin-1 range, which contains ASCII). On that range the methods below
  are exactly what \<open>str.isspace\<close>, \<open>str.strip\<close>, \<open>str.lower\<close> and \<open>str.startswith\<close>
  compute: the white space of Python is the code points 9-13, 28-32, 133 and 160, and
  \<open>lower\<close> adds 32 to the code points 65-90, 192-214 and 216-222 and leaves the others
  alone. Adding 32 to one of those code points is setting bit 5, which is clear in all of
  them.
\<close>

definition isspace :: "char \<Rightarrow> bool" where
  "isspace c = (let n = (of_char c :: nat) in
     (9 \<le> n \<and> n \<le> 13) \<or> (28 \<le> n \<and> n \<le> 32) \<or> n = 133 \<or> n = 160)"

definition strip :: "string \<Rightarrow> string" where
  "strip s = rev (dropWhile isspace (rev (dropWhile isspace s)))"

definition startswith :: "string \<Rightarrow> string \<Rightarrow> bool" where
  "startswith s p = (take (length p) s = p)"

definition is_upper :: "char \<Rightarrow> bool" where
  "is_upper c = (let n = (of_char c :: nat) in
     (65 \<le> n \<and> n \<le> 90) \<or> (192 \<le> n \<and> n \<le> 214) \<or> (216 \<le> n \<and> n \<le> 222))"

fun lower_char :: "char \<Rightarrow> char" where
  "lower_char (Char b0 b1 b2 b3 b4 b5 b6 b7) =
     (if is_upper (Char b0 b1 b2 b3 b4 b5 b6 b7) then Char b0 b1 b2 b3 b4 True b6 b7
      else Char b0 b1 b2 b3 b4 b5 b6 b7)"

definition lower :: "string \<Rightarrow> string" where
  "lower s = map lower_char s"

text \<open>\<open>str(b)\<close> of a Boolean, and an optional string inside an f-string.\<close>

definition str_bool :: "bool \<Rightarrow> string" where
  "str_bool b = (if b then ''True'' else ''False'')"

definition str_opt :: "string option \<Rightarrow> string" where
  "str_opt v = (case v of None \<Rightarrow> ''None'' | Some s \<Rightarrow> s)"

text \<open>\<open>x or ""\<close> on an optional string.\<close>

definition or_empty :: "string option \<Rightarrow> string" where
  "or_empty v = (case v of None \<Rightarrow> [] | Some s \<Rightarrow> s)"

section \<open>The element tree of a parsed response\<close>

text \<open>
  \<open>xml.etree.ElementTree\<close> is a library of Python, not code of this repository. Its
  parser is a parameter of the model (\<open>fromstring\<close> below); its elements are the datatype
  \<open>element\<close>: the tag in the library's own notation \<open>{namespace}local\<close>, the attribute
  dictionary, the text before the first child (\<open>None\<close> when there is none) and the
  children in document order.
\<close>

datatype element =
  Element (tag: string) (attrib: "(string \<times> string) list") (etext: "string option")
    (children: "element list")

text \<open>\<open>Element.iter()\<close>: the element and its descendants, in document order.\<close>

fun iter :: "element \<Rightarrow> element list" where
  "iter (Element t a x cs) = Element t a x cs # concat (map iter cs)"

text \<open>
  The steps of a path of \<open>ElementPath\<close>. \<open>//tag\<close> selects, for each element of the
  context, the elements of \<open>iter\<close> with that tag other than the element itself; \<open>/tag\<close>
  selects the children with that tag. \<open>find\<close> returns the first element selected, or
  \<open>None\<close>.
\<close>

definition select_descendant :: "string \<Rightarrow> element list \<Rightarrow> element list" where
  "select_descendant tg result =
     concat (map (\<lambda>elem. filter (\<lambda>e. tag e = tg) (concat (map iter (children elem)))) result)"

definition select_child :: "string \<Rightarrow> element list \<Rightarrow> element list" where
  "select_child tg result =
     concat (map (\<lambda>elem. filter (\<lambda>e. tag e = tg) (children elem)) result)"

definition first :: "'a list \<Rightarrow> 'a option" where
  "first xs = (case xs of [] \<Rightarrow> None | x # _ \<Rightarrow> Some x)"

definition NS_M :: string where
  "NS_M = ''http://schemas.microsoft.com/exchange/services/2006/messages''"

definition NS_T :: string where
  "NS_T = ''http://schemas.microsoft.com/exchange/services/2006/types''"

definition qname :: "string \<Rightarrow> string \<Rightarrow> string" where
  "qname ns name = ''{'' @ ns @ ''}'' @ name"

text \<open>\<open>root.findall(".//p:name")\<close> and \<open>root.find(".//p:name")\<close>.\<close>

definition findall_descendant :: "string \<Rightarrow> string \<Rightarrow> element \<Rightarrow> element list" where
  "findall_descendant ns name root = select_descendant (qname ns name) [root]"

definition find_descendant :: "string \<Rightarrow> string \<Rightarrow> element \<Rightarrow> element option" where
  "find_descendant ns name root = first (findall_descendant ns name root)"

text \<open>\<open>e.find("./t:a/t:b")\<close>.\<close>

definition find_child2 :: "string \<Rightarrow> string \<Rightarrow> element \<Rightarrow> element option" where
  "find_child2 a b e = first (select_child (qname NS_T b) (select_child (qname NS_T a) [e]))"

section \<open>The transport\<close>

text \<open>
  \<open>requests.post\<close> is a library call. The model keeps the request the code builds, and
  takes the server as a parameter: \<open>respond\<close> maps a request and the state of the server to
  a response (\<open>None\<close>: no response came, the library raised) and the next state of the
  server. The world the code runs in is the state of the server and the list of the
  requests sent so far. The headers of a response are looked up without regard to case,
  as the library does.
\<close>

record request =
  url :: string
  data :: string
  headers :: "(string \<times> string) list"
  auth :: "string \<times> string"
  timeout :: nat
  verify :: bool
  allow_redirects :: bool

record response =
  status_code :: nat
  resp_headers :: "(string \<times> string) list"
  resp_text :: string

definition headers_get :: "response \<Rightarrow> string \<Rightarrow> string option" where
  "headers_get resp name = map_of (map (\<lambda>(k, v). (lower k, v)) (resp_headers resp)) (lower name)"

datatype error = ValueError string | HTTPError nat | ParseError | RequestException

record 'w extern =
  respond :: "request \<Rightarrow> 'w \<Rightarrow> response option \<times> 'w"
  fromstring :: "string \<Rightarrow> element option"

record 'w world =
  sent :: "request list"
  server :: 'w

definition requests_post :: "'w extern \<Rightarrow> request \<Rightarrow> 'w world \<Rightarrow> response option \<times> 'w world" where
  "requests_post ext req wd =
     (case respond ext req (server wd) of
        (r, s) \<Rightarrow> (r, \<lparr>sent = sent wd @ [req], server = s\<rparr>))"

section \<open>EWSDelegationManager\<close>

record manager =
  ews_url :: string
  owner_upn :: string
  owner_username :: string
  owner_password :: string
  verify_tls :: bool

text \<open>The request \<open>_post_ews\<close> sends: the anchor header is set when the anchor is a
  non-empty string.\<close>

definition ews_request :: "manager \<Rightarrow> string \<Rightarrow> string option \<Rightarrow> request" where
  "ews_request mgr soap_xml anchor =
     \<lparr>url = ews_url mgr,
      data = soap_xml,
      headers = (''Content-Type'', ''text/xml; charset=utf-8'') #
                (case anchor of None \<Rightarrow> []
                 | Some a \<Rightarrow> if a = [] then [] else [(''X-AnchorMailbox'', a)]),
      auth = (owner_username mgr, owner_password mgr),
      timeout = 60,
      verify = verify_tls mgr,
      allow_redirects = False\<rparr>"

definition is_html :: "string \<Rightarrow> bool" where
  "is_html response_text =
     (startswith (strip response_text) ''<!DOCTYPE HTML'' \<or> startswith (strip response_text) ''<html'')"

definition html_message :: string where
  "html_message = ''Received HTML response instead of XML. This typically indicates an authentication issue or incorrect EWS URL. Check your credentials and URL. First 100 chars: ''"

text \<open>
  \<open>_post_ews\<close>. \<open>Response.raise_for_status\<close> of the library raises \<open>HTTPError\<close> when the
  status is from 400 to 599, and returns otherwise. The field \<open>data\<close> of the request is
  the text of the body; the code sends its UTF-8 encoding.
\<close>

definition post_ews ::
  "'w extern \<Rightarrow> manager \<Rightarrow> string \<Rightarrow> string option \<Rightarrow> 'w world \<Rightarrow> (error + string) \<times> 'w world" where
  "post_ews ext mgr soap_xml anchor wd =
     (case requests_post ext (ews_request mgr soap_xml anchor) wd of
        (None, wd') \<Rightarrow> (Inl RequestException, wd')
      | (Some resp, wd') \<Rightarrow>
          if status_code resp = 401
          then (Inl (ValueError (''401 Unauthorized. WWW-Authenticate: '' @
                       str_opt (headers_get resp ''WWW-Authenticate''))), wd')
          else if 400 \<le> status_code resp \<and> status_code resp < 600
          then (Inl (HTTPError (status_code resp)), wd')
          else if is_html (resp_text resp)
          then (Inl (ValueError (html_message @ take 100 (resp_text resp))), wd')
          else (Inr (resp_text resp), wd'))"

definition soap_header :: string where
  \<open>soap_header = ''<soap:Header><t:RequestServerVersion Version="Exchange2010_SP2"/></soap:Header>''\<close>

definition envelope_open :: string where
  \<open>envelope_open =
     ''<?xml version="1.0" encoding="utf-8"?>\<newline>'' @
     ''<soap:Envelope xmlns:soap="http://schemas.xmlsoap.org/soap/envelope/" xmlns:t="http://schemas.microsoft.com/exchange/services/2006/types" xmlns:m="http://schemas.microsoft.com/exchange/services/2006/messages">\<newline>'' @
     soap_header @ ''\<newline>'' @
     ''<soap:Body>\<newline>''\<close>

text \<open>
  The three request bodies. The comment inside \<open>m:UserIds\<close> of the GetDelegate body is
  written in characters beyond code point 255; its text is the parameter \<open>cmt\<close>.
\<close>

definition get_inbox_level_soap :: "string \<Rightarrow> manager \<Rightarrow> string" where
  \<open>get_inbox_level_soap cmt mgr =
     envelope_open @
     ''<m:GetDelegate IncludePermissions="true">\<newline>'' @
     ''<m:Mailbox><t:EmailAddress>'' @ owner_upn mgr @ ''</t:EmailAddress></m:Mailbox>\<newline>'' @
     ''<m:UserIds>\<newline>'' @
     ''<!--'' @ cmt @ ''-->'' @ ''\<newline>'' @
     ''</m:UserIds>\<newline>'' @
     ''</m:GetDelegate>\<newline>'' @
     ''</soap:Body>\<newline>'' @
     ''</soap:Envelope>''\<close>

definition add_delegate_soap :: "manager \<Rightarrow> string \<Rightarrow> bool \<Rightarrow> bool \<Rightarrow> string \<Rightarrow> string" where
  \<open>add_delegate_soap mgr delegate_upn receive_copies view_private deliver_meeting =
     envelope_open @
     ''<m:AddDelegate>\<newline>'' @
     ''<m:Mailbox><t:EmailAddress>'' @ owner_upn mgr @ ''</t:EmailAddress></m:Mailbox>\<newline>'' @
     ''<m:DelegateUsers>\<newline>'' @
     ''<t:DelegateUser>\<newline>'' @
     ''<t:UserId><t:PrimarySmtpAddress>'' @ delegate_upn @ ''</t:PrimarySmtpAddress></t:UserId>\<newline>'' @
     ''<t:DelegatePermissions>\<newline>'' @
     ''<t:InboxFolderPermissionLevel>Reviewer</t:InboxFolderPermissionLevel>\<newline>'' @
     ''</t:DelegatePermissions>\<newline>'' @
     ''<t:ReceiveCopiesOfMeetingMessages>'' @ lower (str_bool receive_copies) @ ''</t:ReceiveCopiesOfMeetingMessages>\<newline>'' @
     ''<t:ViewPrivateItems>'' @ lower (str_bool view_private) @ ''</t:ViewPrivateItems>\<newline>'' @
     ''</t:DelegateUser>\<newline>'' @
     ''</m:DelegateUsers>\<newline>'' @
     ''<m:DeliverMeetingRequests>'' @ deliver_meeting @ ''</m:DeliverMeetingRequests>\<newline>'' @
     ''</m:AddDelegate>\<newline>'' @
     ''</soap:Body>\<newline>'' @
     ''</soap:Envelope>''\<close>

definition update_delegate_soap :: "manager \<Rightarrow> string \<Rightarrow> string \<Rightarrow> string" where
  \<open>update_delegate_soap mgr delegate_upn level =
     envelope_open @
     ''<m:UpdateDelegate>\<newline>'' @
     ''<m:Mailbox><t:EmailAddress>'' @ owner_upn mgr @ ''</t:EmailAddress></m:Mailbox>\<newline>'' @
     ''<m:DelegateUsers>\<newline>'' @
     ''<t:DelegateUser>\<newline>'' @
     ''<t:UserId><t:PrimarySmtpAddress>'' @ delegate_upn @ ''</t:PrimarySmtpAddress></t:UserId>\<newline>'' @
     ''<t:DelegatePermissions>\<newline>'' @
     ''<t:InboxFolderPermissionLevel>'' @ level @ ''</t:InboxFolderPermissionLevel>\<newline>'' @
     ''</t:DelegatePermissions>\<newline>'' @
     ''</t:DelegateUser>\<newline>'' @
     ''</m:DelegateUsers>\<newline>'' @
     ''<m:DeliverMeetingRequests>DelegatesAndSendInformationToMe</m:DeliverMeetingRequests>\<newline>'' @
     ''</m:UpdateDelegate>\<newline>'' @
     ''</soap:Body>\<newline>'' @
     ''</soap:Envelope>''\<close>

text \<open>
  The body of the loop of \<open>get_inbox_level\<close> on one \<open>DelegateUser\<close> element: \<open>None\<close> when
  the entry is skipped, the pair it yields otherwise.
\<close>

definition delegate_entry :: "element \<Rightarrow> (string \<times> string option) option" where
  "delegate_entry du =
     (case find_child2 ''UserId'' ''PrimarySmtpAddress'' du of
        None \<Rightarrow> None
      | Some upn \<Rightarrow>
          if strip (or_empty (etext upn)) = [] then None
          else Some (lower (or_empty (etext upn)),
                     (case find_child2 ''DelegatePermissions'' ''InboxFolderPermissionLevel'' du of
                        None \<Rightarrow> None
                      | Some inbox \<Rightarrow> etext inbox)))"

definition delegate_records :: "element \<Rightarrow> (string \<times> string option) list" where
  "delegate_records root = List.map_filter delegate_entry (findall_descendant NS_T ''DelegateUser'' root)"

text \<open>
  \<open>get_inbox_level\<close> is a generator: its body runs when the caller asks for the first
  element, and everything it yields comes from the one response. The model returns the
  whole sequence. What the code prints is not modelled.
\<close>

definition get_inbox_level ::
  "'w extern \<Rightarrow> string \<Rightarrow> manager \<Rightarrow> 'w world \<Rightarrow> (error + (string \<times> string option) list) \<times> 'w world" where
  "get_inbox_level ext cmt mgr wd =
     (case post_ews ext mgr (get_inbox_level_soap cmt mgr) (Some (owner_upn mgr)) wd of
        (Inl e, wd') \<Rightarrow> (Inl e, wd')
      | (Inr xml, wd') \<Rightarrow>
          (case fromstring ext xml of
             None \<Rightarrow> (Inl ParseError, wd')
           | Some root \<Rightarrow> (Inr (delegate_records root), wd')))"

text \<open>
  What \<open>add_delegate_inbox_reviewer\<close> and \<open>update_delegate_inbox\<close> make of the parsed
  response; \<open>name\<close> is \<open>AddDelegateResponse\<close> or \<open>UpdateDelegateResponse\<close>. The message is
  optional because the text of an empty \<open>ResponseCode\<close> element is \<open>None\<close>.
\<close>

definition write_outcome :: "string \<Rightarrow> string \<Rightarrow> element \<Rightarrow> bool \<times> string option" where
  "write_outcome name success root =
     (if (case find_descendant NS_M name root of
            None \<Rightarrow> False
          | Some resp \<Rightarrow> map_of (attrib resp) ''ResponseClass'' = Some ''Success'')
      then (True, Some success)
      else (case find_descendant NS_M ''ResponseCode'' root of
              None \<Rightarrow> (False, Some ''UnknownError'')
            | Some code \<Rightarrow> (False, etext code)))"

definition add_delegate_inbox_reviewer ::
  "'w extern \<Rightarrow> manager \<Rightarrow> string \<Rightarrow> bool \<Rightarrow> bool \<Rightarrow> string \<Rightarrow> 'w world
     \<Rightarrow> (error + bool \<times> string option) \<times> 'w world" where
  "add_delegate_inbox_reviewer ext mgr delegate_upn receive_copies view_private deliver_meeting wd =
     (case post_ews ext mgr
             (add_delegate_soap mgr delegate_upn receive_copies view_private deliver_meeting)
             (Some (owner_upn mgr)) wd of
        (Inl e, wd') \<Rightarrow> (Inl e, wd')
      | (Inr xml, wd') \<Rightarrow>
          (case fromstring ext xml of
             None \<Rightarrow> (Inl ParseError, wd')
           | Some root \<Rightarrow> (Inr (write_outcome ''AddDelegateResponse'' ''AddDelegate Success'' root), wd')))"

definition update_delegate_inbox ::
  "'w extern \<Rightarrow> manager \<Rightarrow> string \<Rightarrow> string \<Rightarrow> 'w world \<Rightarrow> (error + bool \<times> string option) \<times> 'w world" where
  "update_delegate_inbox ext mgr delegate_upn level wd =
     (case post_ews ext mgr (update_delegate_soap mgr delegate_upn level) (Some (owner_upn mgr)) wd of
        (Inl e, wd') \<Rightarrow> (Inl e, wd')
      | (Inr xml, wd') \<Rightarrow>
          (case fromstring ext xml of
             None \<Rightarrow> (Inl ParseError, wd')
           | Some root \<Rightarrow>
               (Inr (write_outcome ''UpdateDelegateResponse'' ''UpdateDelegate Success'' root), wd')))"

text \<open>
  The loop of \<open>ensure_inbox_reviewer\<close>: \<open>found_level\<close> starts as \<open>None\<close>, takes the level of
  the first pair whose address is the target, and the loop stops there.
\<close>

fun found_level :: "(string \<times> string option) list \<Rightarrow> string \<Rightarrow> string option" where
  "found_level [] target = None"
| "found_level ((upn, level) # rest) target =
     (if upn = target then level else found_level rest target)"

definition ensure_inbox_reviewer ::
  "'w extern \<Rightarrow> string \<Rightarrow> manager \<Rightarrow> string \<Rightarrow> 'w world \<Rightarrow> (error + bool \<times> string option) \<times> 'w world" where
  "ensure_inbox_reviewer ext cmt mgr delegate_upn wd =
     (case get_inbox_level ext cmt mgr wd of
        (Inl e, wd') \<Rightarrow> (Inl e, wd')
      | (Inr recs, wd') \<Rightarrow>
          (case found_level recs (lower delegate_upn) of
             None \<Rightarrow>
               add_delegate_inbox_reviewer ext mgr delegate_upn False False
                 ''DelegatesAndSendInformationToMe'' wd'
           | Some lv \<Rightarrow>
               if lv \<noteq> ''Reviewer'' then update_delegate_inbox ext mgr delegate_upn ''Reviewer'' wd'
               else (Inr (True, Some ''Already Reviewer''), wd')))"

section \<open>Notions the statements need\<close>

text \<open>
  Two strings are equal up to ASCII case when they agree after the letters \<open>A-Z\<close> are
  replaced by \<open>a-z\<close>.
\<close>

definition ascii_fold_char :: "char \<Rightarrow> char" where
  "ascii_fold_char c = (let n = (of_char c :: nat) in if 65 \<le> n \<and> n \<le> 90 then lower_char c else c)"

definition equal_up_to_ascii_case :: "string \<Rightarrow> string \<Rightarrow> bool" where
  "equal_up_to_ascii_case s t = (map ascii_fold_char s = map ascii_fold_char t)"

text \<open>
  A recogniser for XML documents without a document type declaration and without CDATA
  sections: an optional declaration and processing instructions, comments, one root
  element, start tags, end tags and empty-element tags that nest, attribute values in
  quotes, references, and character data. It is permissive about names and about what
  stands between the attributes of a tag, so a document of that kind which it rejects
  is not well-formed. It reads the document one character at a time; the state is the
  mode, the stack of the elements that are open, and whether the root element has been
  closed.
\<close>

datatype xmode =
    Content | Lt | StartTag string | InTag string | Quoted string char | SelfClose string
  | EndTag string | EndTagSpace string | Bang | BangDash | Comment | Comment1 | Comment2
  | Instr | Instr1 | Ref

definition name_char :: "char \<Rightarrow> bool" where
  \<open>name_char c = (\<not> isspace c \<and> c \<notin> set ''<>/="&?!'' \<and> c \<noteq> CHR 0x27)\<close>

definition close_tag :: "string \<Rightarrow> string list \<Rightarrow> (xmode \<times> string list \<times> bool) option" where
  "close_tag n stack =
     (case stack of [] \<Rightarrow> None
      | m # rest \<Rightarrow> if m = n then Some (Content, rest, rest = []) else None)"

fun xstep :: "xmode \<times> string list \<times> bool \<Rightarrow> char \<Rightarrow> (xmode \<times> string list \<times> bool) option" where
  "xstep (Content, stack, closed) c =
     (if c = CHR ''<'' then Some (Lt, stack, closed)
      else if stack = [] then (if isspace c then Some (Content, stack, closed) else None)
      else if c = CHR ''&'' then Some (Ref, stack, closed)
      else Some (Content, stack, closed))"
| "xstep (Lt, stack, closed) c =
     (if c = CHR ''/'' then (if stack = [] then None else Some (EndTag [], stack, closed))
      else if c = CHR ''?'' then Some (Instr, stack, closed)
      else if c = CHR ''!'' then Some (Bang, stack, closed)
      else if name_char c \<and> \<not> (stack = [] \<and> closed) then Some (StartTag [c], stack, closed)
      else None)"
| "xstep (StartTag n, stack, closed) c =
     (if name_char c then Some (StartTag (n @ [c]), stack, closed)
      else if isspace c then Some (InTag n, stack, closed)
      else if c = CHR ''>'' then Some (Content, n # stack, closed)
      else if c = CHR ''/'' then Some (SelfClose n, stack, closed)
      else None)"
| \<open>xstep (InTag n, stack, closed) c =
     (if c = CHR 0x22 \<or> c = CHR 0x27 then Some (Quoted n c, stack, closed)
      else if c = CHR ''>'' then Some (Content, n # stack, closed)
      else if c = CHR ''/'' then Some (SelfClose n, stack, closed)
      else if c = CHR ''<'' then None
      else Some (InTag n, stack, closed))\<close>
| "xstep (Quoted n q, stack, closed) c =
     (if c = q then Some (InTag n, stack, closed)
      else if c = CHR ''<'' then None
      else Some (Quoted n q, stack, closed))"
| "xstep (SelfClose n, stack, closed) c =
     (if c = CHR ''>'' then Some (Content, stack, stack = []) else None)"
| "xstep (EndTag n, stack, closed) c =
     (if name_char c then Some (EndTag (n @ [c]), stack, closed)
      else if isspace c then Some (EndTagSpace n, stack, closed)
      else if c = CHR ''>'' then close_tag n stack
      else None)"
| "xstep (EndTagSpace n, stack, closed) c =
     (if isspace c then Some (EndTagSpace n, stack, closed)
      else if c = CHR ''>'' then close_tag n stack
      else None)"
| "xstep (Bang, stack, closed) c = (if c = CHR ''-'' then Some (BangDash, stack, closed) else None)"
| "xstep (BangDash, stack, closed) c = (if c = CHR ''-'' then Some (Comment, stack, closed) else None)"
| "xstep (Comment, stack, closed) c =
     (if c = CHR ''-'' then Some (Comment1, stack, closed) else Some (Comment, stack, closed))"
| "xstep (Comment1, stack, closed) c =
     (if c = CHR ''-'' then Some (Comment2, stack, closed) else Some (Comment, stack, closed))"
| "xstep (Comment2, stack, closed) c = (if c = CHR ''>'' then Some (Content, stack, closed) else None)"
| "xstep (Instr, stack, closed) c =
     (if c = CHR ''?'' then Some (Instr1, stack, closed) else Some (Instr, stack, closed))"
| "xstep (Instr1, stack, closed) c =
     (if c = CHR ''>'' then Some (Content, stack, closed)
      else if c = CHR ''?'' then Some (Instr1, stack, closed)
      else Some (Instr, stack, closed))"
| "xstep (Ref, stack, closed) c =
     (if c = CHR '';'' then Some (Content, stack, closed)
      else if name_char c \<or> c = CHR ''#'' then Some (Ref, stack, closed)
      else None)"

fun xscan :: "(xmode \<times> string list \<times> bool) option \<Rightarrow> string \<Rightarrow> (xmode \<times> string list \<times> bool) option" where
  "xscan st [] = st"
| "xscan None (c # cs) = None"
| "xscan (Some st) (c # cs) = xscan (xstep st c) cs"

definition well_formed :: "string \<Rightarrow> bool" where
  "well_formed doc = (xscan (Some (Content, [], False)) doc = Some (Content, [], True))"

text \<open>
  The response element of a write is the first element named \<open>AddDelegateResponse\<close> (or
  \<open>UpdateDelegateResponse\<close>) of the messages namespace below the root, in document
  order; the write succeeded when it carries the attribute \<open>ResponseClass="Success"\<close>.
  The message of a failure is the text of the first \<open>ResponseCode\<close> element, or
  \<open>UnknownError\<close> when there is none.
\<close>

definition response_success :: "string \<Rightarrow> element \<Rightarrow> bool" where
  "response_success name root =
     (case List.find (\<lambda>e. tag e = qname NS_M name) (tl (iter root)) of
        None \<Rightarrow> False
      | Some resp \<Rightarrow> map_of (attrib resp) ''ResponseClass'' = Some ''Success'')"

definition failure_message :: "element \<Rightarrow> string option" where
  "failure_message root =
     (case List.find (\<lambda>e. tag e = qname NS_M ''ResponseCode'') (tl (iter root)) of
        None \<Rightarrow> Some ''UnknownError''
      | Some code \<Rightarrow> etext code)"

text \<open>
  What a \<open>DelegateUser\<close> entry contributes to the sequence: nothing when its address is
  missing or empty (an address of white space only counts as empty), and otherwise the
  pair of the lower-cased address and the inbox level, \<open>None\<close> when the entry has none.
\<close>

definition address_of :: "element \<Rightarrow> string option" where
  "address_of du =
     (case find_child2 ''UserId'' ''PrimarySmtpAddress'' du of None \<Rightarrow> None | Some a \<Rightarrow> etext a)"

definition level_of :: "element \<Rightarrow> string option" where
  "level_of du =
     (case find_child2 ''DelegatePermissions'' ''InboxFolderPermissionLevel'' du of
        None \<Rightarrow> None | Some i \<Rightarrow> etext i)"

definition emitted :: "element \<Rightarrow> (string \<times> string option) list" where
  "emitted du =
     (case address_of du of
        None \<Rightarrow> []
      | Some a \<Rightarrow> if strip a = [] then [] else [(lower a, level_of du)])"


section \<open>A test double for the server\<close>

text \<open>
  The statements about \<open>ensure_inbox_reviewer\<close> hold for every server and every parser.
  To run them, this is a server for one owner, \<open>owner@x.com\<close>, with a delegate
  \<open>a@x.com\<close> who is a Reviewer and a second delegate \<open>b@x.com\<close> whose entry is the state
  of the server. It answers the three requests the manager builds for \<open>b@x.com\<close>:
  AddDelegate is refused when the delegate exists, UpdateDelegate when the delegate does
  not. The other states answer every request the same way: an error reply, a redirect,
  a 401, a 503, an HTML page, a body that is not XML. The parser of the double knows
  the documents the server sends.
\<close>

datatype mock_state =
    Absent | NoLevel | Author | Reviewer | CaseMix | Denied
  | Moved | Unauthorized | Unavailable | Html | Garbled

datatype mock_call = GetDelegate | AddDelegate | UpdateDelegate | Unknown

definition mgr0 :: manager where
  "mgr0 = \<lparr>ews_url = ''https://mail.x.com/EWS/Exchange.asmx'', owner_upn = ''owner@x.com'',
           owner_username = ''owner'', owner_password = ''secret'', verify_tls = True\<rparr>"

definition cmt0 :: string where
  "cmt0 = '' GetDelegate <t:UserId> ''"

definition SOAP_NS :: string where
  "SOAP_NS = ''http://schemas.xmlsoap.org/soap/envelope/''"

definition reply_xml :: "string \<Rightarrow> string" where
  \<open>reply_xml inner =
     ''<s:Envelope xmlns:s="http://schemas.xmlsoap.org/soap/envelope/" xmlns:m="http://schemas.microsoft.com/exchange/services/2006/messages" xmlns:t="http://schemas.microsoft.com/exchange/services/2006/types"><s:Body>'' @
     inner @ ''</s:Body></s:Envelope>''\<close>

definition reply_tree :: "element \<Rightarrow> element" where
  "reply_tree inner =
     Element (qname SOAP_NS ''Envelope'') [] None [Element (qname SOAP_NS ''Body'') [] None [inner]]"

definition delegate_user_xml :: "string \<times> string option \<Rightarrow> string" where
  \<open>delegate_user_xml d =
     ''<t:DelegateUser><t:UserId><t:PrimarySmtpAddress>'' @ fst d @ ''</t:PrimarySmtpAddress></t:UserId>'' @
     (case snd d of
        None \<Rightarrow> ''<t:DelegatePermissions/>''
      | Some l \<Rightarrow> ''<t:DelegatePermissions><t:InboxFolderPermissionLevel>'' @ l @
                  ''</t:InboxFolderPermissionLevel></t:DelegatePermissions>'') @
     ''</t:DelegateUser>''\<close>

definition delegate_user_tree :: "string \<times> string option \<Rightarrow> element" where
  "delegate_user_tree d =
     Element (qname NS_T ''DelegateUser'') [] None
       [Element (qname NS_T ''UserId'') [] None
          [Element (qname NS_T ''PrimarySmtpAddress'') [] (Some (fst d)) []],
        Element (qname NS_T ''DelegatePermissions'') [] None
          (case snd d of
             None \<Rightarrow> []
           | Some l \<Rightarrow> [Element (qname NS_T ''InboxFolderPermissionLevel'') [] (Some l) []])]"

definition get_reply_xml :: "(string \<times> string option) list \<Rightarrow> string" where
  \<open>get_reply_xml ds =
     reply_xml (''<m:GetDelegateResponse ResponseClass="Success"><m:ResponseCode>NoError</m:ResponseCode>'' @
                concat (map delegate_user_xml ds) @ ''</m:GetDelegateResponse>'')\<close>

definition get_reply_tree :: "(string \<times> string option) list \<Rightarrow> element" where
  "get_reply_tree ds =
     reply_tree (Element (qname NS_M ''GetDelegateResponse'') [(''ResponseClass'', ''Success'')] None
                   (Element (qname NS_M ''ResponseCode'') [] (Some ''NoError'') [] #
                    map delegate_user_tree ds))"

definition status_reply_xml :: "string \<times> string \<times> string \<Rightarrow> string" where
  \<open>status_reply_xml r =
     (case r of (name, cls, code) \<Rightarrow>
        reply_xml (''<m:'' @ name @ '' ResponseClass="'' @ cls @ ''"><m:ResponseCode>'' @ code @
                   ''</m:ResponseCode></m:'' @ name @ ''>''))\<close>

definition status_reply_tree :: "string \<times> string \<times> string \<Rightarrow> element" where
  "status_reply_tree r =
     (case r of (name, cls, code) \<Rightarrow>
        reply_tree (Element (qname NS_M name) [(''ResponseClass'', cls)] None
                      [Element (qname NS_M ''ResponseCode'') [] (Some code) []]))"

fun listed :: "mock_state \<Rightarrow> (string \<times> string option) list" where
  "listed Absent = [(''a@x.com'', Some ''Reviewer'')]"
| "listed NoLevel = [(''a@x.com'', Some ''Reviewer''), (''b@x.com'', None)]"
| "listed Author = [(''a@x.com'', Some ''Reviewer''), (''b@x.com'', Some ''Author'')]"
| "listed Reviewer = [(''a@x.com'', Some ''Reviewer''), (''b@x.com'', Some ''Reviewer'')]"
| "listed CaseMix = [(''John@Example.com'', Some ''Reviewer'')]"
| "listed s = []"

definition mock_lists :: "(string \<times> string option) list list" where
  "mock_lists = [listed Absent, listed NoLevel, listed Author, listed Reviewer, listed CaseMix, []]"

definition mock_statuses :: "(string \<times> string \<times> string) list" where
  "mock_statuses =
     [(''AddDelegateResponse'', ''Success'', ''NoError''),
      (''AddDelegateResponse'', ''Error'', ''ErrorDelegateAlreadyExists''),
      (''UpdateDelegateResponse'', ''Success'', ''NoError''),
      (''UpdateDelegateResponse'', ''Error'', ''ErrorDelegateNotFound''),
      (''GetDelegateResponse'', ''Error'', ''ErrorAccessDenied''),
      (''AddDelegateResponse'', ''Error'', ''ErrorAccessDenied''),
      (''UpdateDelegateResponse'', ''Error'', ''ErrorAccessDenied'')]"

definition mock_fromstring :: "string \<Rightarrow> element option" where
  "mock_fromstring s =
     map_of (map (\<lambda>ds. (get_reply_xml ds, get_reply_tree ds)) mock_lists @
             map (\<lambda>r. (status_reply_xml r, status_reply_tree r)) mock_statuses) s"

definition mock_call_of :: "request \<Rightarrow> mock_call" where
  "mock_call_of req =
     (if data req = get_inbox_level_soap cmt0 mgr0 then GetDelegate
      else if data req = add_delegate_soap mgr0 ''b@x.com'' False False ''DelegatesAndSendInformationToMe''
      then AddDelegate
      else if data req = update_delegate_soap mgr0 ''b@x.com'' ''Reviewer'' then UpdateDelegate
      else Unknown)"

definition ok_response :: "string \<Rightarrow> response" where
  "ok_response body =
     \<lparr>status_code = 200, resp_headers = [(''Content-Type'', ''text/xml; charset=utf-8'')],
      resp_text = body\<rparr>"

definition response_name :: "mock_call \<Rightarrow> string" where
  "response_name c =
     (case c of AddDelegate \<Rightarrow> ''AddDelegateResponse''
      | UpdateDelegate \<Rightarrow> ''UpdateDelegateResponse''
      | _ \<Rightarrow> ''GetDelegateResponse'')"

fun mock_respond :: "request \<Rightarrow> mock_state \<Rightarrow> response option \<times> mock_state" where
  "mock_respond req Moved =
     (Some \<lparr>status_code = 302, resp_headers = [(''Location'', ''https://login.x.com/'')],
            resp_text = get_reply_xml []\<rparr>, Moved)"
| "mock_respond req Unauthorized =
     (Some \<lparr>status_code = 401, resp_headers = [(''Www-Authenticate'', ''NTLM'')],
            resp_text = []\<rparr>, Unauthorized)"
| "mock_respond req Unavailable =
     (Some \<lparr>status_code = 503, resp_headers = [],
            resp_text = ''<html><body>Service Unavailable</body></html>''\<rparr>, Unavailable)"
| "mock_respond req Html =
     (Some (ok_response '' <html><head><title>Sign in</title></head></html>''), Html)"
| "mock_respond req Garbled = (Some (ok_response ''not xml''), Garbled)"
| "mock_respond req Denied =
     (Some (ok_response (status_reply_xml (response_name (mock_call_of req), ''Error'', ''ErrorAccessDenied''))),
      Denied)"
| "mock_respond req s =
     (case mock_call_of req of
        GetDelegate \<Rightarrow> (Some (ok_response (get_reply_xml (listed s))), s)
      | AddDelegate \<Rightarrow>
          if s = Absent
          then (Some (ok_response (status_reply_xml (''AddDelegateResponse'', ''Success'', ''NoError''))), Reviewer)
          else (Some (ok_response (status_reply_xml
                  (''AddDelegateResponse'', ''Error'', ''ErrorDelegateAlreadyExists''))), s)
      | UpdateDelegate \<Rightarrow>
          if s = NoLevel \<or> s = Author \<or> s = Reviewer
          then (Some (ok_response (status_reply_xml (''UpdateDelegateResponse'', ''Success'', ''NoError''))), Reviewer)
          else (Some (ok_response (status_reply_xml
                  (''UpdateDelegateResponse'', ''Error'', ''ErrorDelegateNotFound''))), s)
      | Unknown \<Rightarrow> (Some \<lparr>status_code = 400, resp_headers = [], resp_text = []\<rparr>, s))"

definition mock :: "mock_state extern" where
  "mock = \<lparr>respond = mock_respond, fromstring = mock_fromstring\<rparr>"

definition fresh :: "mock_state \<Rightarrow> mock_state world" where
  "fresh s = \<lparr>sent = [], server = s\<rparr>"

text \<open>The requests of the three operations, the writes as \<open>ensure_inbox_reviewer\<close> issues them.\<close>

abbreviation get_request :: "string \<Rightarrow> manager \<Rightarrow> request" where
  "get_request cmt mgr \<equiv> ews_request mgr (get_inbox_level_soap cmt mgr) (Some (owner_upn mgr))"

abbreviation add_request :: "manager \<Rightarrow> string \<Rightarrow> request" where
  "add_request mgr d \<equiv>
     ews_request mgr (add_delegate_soap mgr d False False ''DelegatesAndSendInformationToMe'')
       (Some (owner_upn mgr))"

abbreviation update_request :: "manager \<Rightarrow> string \<Rightarrow> request" where
  "update_request mgr d \<equiv>
     ews_request mgr (update_delegate_soap mgr d ''Reviewer'') (Some (owner_upn mgr))"


abbreviation get_req0 :: request where
  "get_req0 \<equiv> ews_request mgr0 (get_inbox_level_soap cmt0 mgr0) (Some (owner_upn mgr0))"

abbreviation add_req0 :: request where
  "add_req0 \<equiv> ews_request mgr0
     (add_delegate_soap mgr0 ''b@x.com'' False False ''DelegatesAndSendInformationToMe'')
     (Some (owner_upn mgr0))"

abbreviation upd_req0 :: request where
  "upd_req0 \<equiv> ews_request mgr0 (update_delegate_soap mgr0 ''b@x.com'' ''Reviewer'') (Some (owner_upn mgr0))"

section \<open>Strings and element trees\<close>

lemma lower_char_not_upper: "\<not> is_upper (lower_char c)"
proof (cases c)
  case (Char b0 b1 b2 b3 b4 b5 b6 b7)
  show ?thesis unfolding Char
    by (cases b0; cases b1; cases b2; cases b3; cases b4; cases b5; cases b6; cases b7;
        simp add: is_upper_def)
qed

lemma lower_char_idem: "lower_char (lower_char c) = lower_char c"
  using lower_char_not_upper[of c] by (cases "lower_char c") simp

lemma lower_idem: "lower (lower s) = lower s"
  by (simp add: lower_def lower_char_idem)

lemma lower_char_fold: "lower_char (ascii_fold_char c) = lower_char c"
  by (simp add: ascii_fold_char_def Let_def lower_char_idem)

lemma lower_fold: "equal_up_to_ascii_case s t \<Longrightarrow> lower s = lower t"
proof -
  assume "equal_up_to_ascii_case s t"
  then have "map lower_char (map ascii_fold_char s) = map lower_char (map ascii_fold_char t)"
    by (simp add: equal_up_to_ascii_case_def)
  then show ?thesis by (simp add: lower_def lower_char_fold comp_def)
qed

lemma first_filter: "first (filter P xs) = List.find P xs"
  by (induction xs) (auto simp: first_def)

lemma descendants_tl: "concat (map iter (children e)) = tl (iter e)"
  by (cases e) simp

lemma findall_descendant_eq:
  "findall_descendant ns name root = filter (\<lambda>e. tag e = qname ns name) (tl (iter root))"
  by (simp add: findall_descendant_def select_descendant_def descendants_tl)

lemma find_descendant_eq:
  "find_descendant ns name root = List.find (\<lambda>e. tag e = qname ns name) (tl (iter root))"
  by (simp add: find_descendant_def findall_descendant_eq first_filter)

lemma post_ews_sent:
  "post_ews ext mgr soap anchor wd = (r, wd') \<Longrightarrow> sent wd' = sent wd @ [ews_request mgr soap anchor]"
  by (auto simp: post_ews_def requests_post_def split: prod.splits option.splits if_splits)

lemma post_ews_server:
  "post_ews ext mgr soap anchor wd = (r, wd') \<Longrightarrow>
     server wd' = snd (respond ext (ews_request mgr soap anchor) (server wd))"
  by (auto simp: post_ews_def requests_post_def split: prod.splits option.splits if_splits)

lemma get_inbox_level_sent:
  "get_inbox_level ext cmt mgr wd = (r, wd') \<Longrightarrow>
     sent wd' = sent wd @ [ews_request mgr (get_inbox_level_soap cmt mgr) (Some (owner_upn mgr))]"
  by (auto simp: get_inbox_level_def split: prod.splits sum.splits option.splits dest: post_ews_sent)

lemma add_delegate_sent:
  "add_delegate_inbox_reviewer ext mgr d rc vp dm wd = (r, wd') \<Longrightarrow>
     sent wd' = sent wd @ [ews_request mgr (add_delegate_soap mgr d rc vp dm) (Some (owner_upn mgr))]"
  by (auto simp: add_delegate_inbox_reviewer_def split: prod.splits sum.splits option.splits dest: post_ews_sent)

lemma update_delegate_sent:
  "update_delegate_inbox ext mgr d l wd = (r, wd') \<Longrightarrow>
     sent wd' = sent wd @ [ews_request mgr (update_delegate_soap mgr d l) (Some (owner_upn mgr))]"
  by (auto simp: update_delegate_inbox_def split: prod.splits sum.splits option.splits dest: post_ews_sent)

lemma delegate_entry_lower: "delegate_entry du = Some (u, l) \<Longrightarrow> lower u = u"
  by (auto simp: delegate_entry_def lower_idem split: option.splits if_splits)

lemma delegate_records_lower: "(u, l) \<in> set (delegate_records root) \<Longrightarrow> lower u = u"
  by (auto simp: delegate_records_def List.map_filter_def dest: delegate_entry_lower)

lemma get_inbox_level_lower:
  "get_inbox_level ext cmt mgr wd = (Inr recs, wd') \<Longrightarrow> (u, l) \<in> set recs \<Longrightarrow> lower u = u"
  by (auto simp: get_inbox_level_def split: prod.splits sum.splits option.splits dest: delegate_records_lower)

lemma found_level_find:
  "found_level recs t = (case List.find (\<lambda>(u, l). u = t) recs of None \<Rightarrow> None | Some (u, l) \<Rightarrow> l)"
  by (induction recs) auto

lemma find_lower_cong:
  "\<forall>(u, l) \<in> set recs. lower u = u \<Longrightarrow>
     List.find (\<lambda>(u, l). lower u = t) recs = List.find (\<lambda>(u, l). u = t) recs"
  by (rule find_cong) auto

lemma soap_get_neq_add: "get_inbox_level_soap c m \<noteq> add_delegate_soap m' d rc vp dm"
  by (simp add: get_inbox_level_soap_def add_delegate_soap_def)

lemma soap_get_neq_update: "get_inbox_level_soap c m \<noteq> update_delegate_soap m' d l"
  by (simp add: get_inbox_level_soap_def update_delegate_soap_def)

lemma soap_add_neq_update: "add_delegate_soap m d rc vp dm \<noteq> update_delegate_soap m' d' l"
  by (simp add: add_delegate_soap_def update_delegate_soap_def)

lemma dropWhile_mid: "\<not> P c \<Longrightarrow> dropWhile P (xs @ c # ys) = dropWhile P xs @ c # ys"
  by (induction xs) auto

lemma strip_two:
  "\<not> isspace a \<Longrightarrow> \<not> isspace c \<Longrightarrow> strip (a # c # s) = a # c # rev (dropWhile isspace (rev s))"
  by (simp add: strip_def dropWhile_mid)

lemma not_html_xml:
  assumes "\<not> isspace c" "c \<noteq> CHR ''!''" "c \<noteq> CHR ''h''"
  shows "\<not> is_html (CHR ''<'' # c # s)"
proof -
  have lt: "\<not> isspace (CHR ''<'')" by (simp add: isspace_def)
  show ?thesis using assms by (simp add: is_html_def startswith_def strip_two[OF lt assms(1)])
qed

lemma reply_not_html: "\<not> is_html (reply_xml inner)"
  unfolding reply_xml_def by (simp add: not_html_xml isspace_def)

lemma post_ews_ok:
  assumes "respond ext (ews_request mgr soap anchor) (server wd) = (Some resp, s)"
    and "\<not> (400 \<le> status_code resp \<and> status_code resp < 600)"
    and "\<not> is_html (resp_text resp)"
  shows "post_ews ext mgr soap anchor wd =
           (Inr (resp_text resp), \<lparr>sent = sent wd @ [ews_request mgr soap anchor], server = s\<rparr>)"
  using assms by (auto simp: post_ews_def requests_post_def)

lemma call_get: "mock_call_of (ews_request mgr0 (get_inbox_level_soap cmt0 mgr0) a) = GetDelegate"
  by (simp add: mock_call_of_def ews_request_def)

lemma call_add:
  "mock_call_of (ews_request mgr0 (add_delegate_soap mgr0 ''b@x.com'' False False ''DelegatesAndSendInformationToMe'') a) = AddDelegate"
  using soap_get_neq_add[of cmt0 mgr0 mgr0] by (simp add: mock_call_of_def ews_request_def eq_commute)

lemma call_update:
  "mock_call_of (ews_request mgr0 (update_delegate_soap mgr0 ''b@x.com'' ''Reviewer'') a) = UpdateDelegate"
  using soap_get_neq_update[of cmt0 mgr0 mgr0] soap_add_neq_update[of mgr0 _ _ _ _ mgr0]
  by (simp add: mock_call_of_def ews_request_def eq_commute)



section \<open>The test double at work\<close>

lemma parse_get:
  "mock_fromstring (get_reply_xml (listed Absent)) = Some (get_reply_tree (listed Absent))"
  "mock_fromstring (get_reply_xml (listed NoLevel)) = Some (get_reply_tree (listed NoLevel))"
  "mock_fromstring (get_reply_xml (listed Author)) = Some (get_reply_tree (listed Author))"
  "mock_fromstring (get_reply_xml (listed Reviewer)) = Some (get_reply_tree (listed Reviewer))"
  "mock_fromstring (get_reply_xml (listed CaseMix)) = Some (get_reply_tree (listed CaseMix))"
  "mock_fromstring (get_reply_xml []) = Some (get_reply_tree [])"
  unfolding mock_fromstring_def mock_lists_def mock_statuses_def
  by (simp_all add: get_reply_xml_def status_reply_xml_def reply_xml_def delegate_user_xml_def)

lemma tags_neq:
  "qname NS_T ''DelegateUser'' \<noteq> qname NS_M x"
  "qname NS_T ''DelegateUser'' \<noteq> qname SOAP_NS x"
  by (simp_all add: qname_def NS_T_def NS_M_def SOAP_NS_def)

lemma lower_a: "lower ''a@x.com'' = ''a@x.com''" "lower ''b@x.com'' = ''b@x.com''"
  "lower ''John@Example.com'' = ''john@example.com''"
  by (simp_all add: lower_def is_upper_def)

lemma strip_a: "strip ''a@x.com'' \<noteq> []" "strip ''b@x.com'' \<noteq> []" "strip ''John@Example.com'' \<noteq> []"
  by (simp_all add: strip_def isspace_def)

lemma entry_tree:
  "delegate_entry (delegate_user_tree (a, l)) =
     (if strip a = [] then None else Some (lower a, l))"
  by (cases l) (simp_all add: delegate_entry_def delegate_user_tree_def find_child2_def select_child_def
      first_def or_empty_def qname_def NS_T_def)


lemma qname_inj: "qname ns a = qname ns b \<longleftrightarrow> a = b"
  by (simp add: qname_def)

lemma iter_delegate_filter:
  "filter (\<lambda>e. tag e = qname NS_T ''DelegateUser'') (iter (delegate_user_tree d)) = [delegate_user_tree d]"
  by (cases "snd d") (simp_all add: delegate_user_tree_def qname_inj)

lemma concat_delegate_filter:
  "filter (\<lambda>e. tag e = qname NS_T ''DelegateUser'') (concat (map iter (map delegate_user_tree ds)))
     = map delegate_user_tree ds"
  by (induction ds) (simp_all add: iter_delegate_filter)

lemma records_reply:
  "delegate_records (get_reply_tree ds) = List.map_filter delegate_entry (map delegate_user_tree ds)"
  using tags_neq concat_delegate_filter[of ds]
  by (simp add: delegate_records_def findall_descendant_def select_descendant_def get_reply_tree_def
      reply_tree_def eq_commute[of "qname NS_T ''DelegateUser''"])

lemma records_listed:
  "delegate_records (get_reply_tree (listed Absent)) = [(''a@x.com'', Some ''Reviewer'')]"
  "delegate_records (get_reply_tree (listed NoLevel)) = [(''a@x.com'', Some ''Reviewer''), (''b@x.com'', None)]"
  "delegate_records (get_reply_tree (listed Author)) = [(''a@x.com'', Some ''Reviewer''), (''b@x.com'', Some ''Author'')]"
  "delegate_records (get_reply_tree (listed Reviewer)) = [(''a@x.com'', Some ''Reviewer''), (''b@x.com'', Some ''Reviewer'')]"
  "delegate_records (get_reply_tree (listed CaseMix)) = [(''john@example.com'', Some ''Reviewer'')]"
  "delegate_records (get_reply_tree []) = []"
  using strip_a by (simp_all add: records_reply List.map_filter_def entry_tree lower_a)

lemma parse_status:
  "mock_fromstring (status_reply_xml (''AddDelegateResponse'', ''Success'', ''NoError'')) =
     Some (status_reply_tree (''AddDelegateResponse'', ''Success'', ''NoError''))"
  "mock_fromstring (status_reply_xml (''AddDelegateResponse'', ''Error'', ''ErrorDelegateAlreadyExists'')) =
     Some (status_reply_tree (''AddDelegateResponse'', ''Error'', ''ErrorDelegateAlreadyExists''))"
  "mock_fromstring (status_reply_xml (''UpdateDelegateResponse'', ''Success'', ''NoError'')) =
     Some (status_reply_tree (''UpdateDelegateResponse'', ''Success'', ''NoError''))"
  "mock_fromstring (status_reply_xml (''UpdateDelegateResponse'', ''Error'', ''ErrorDelegateNotFound'')) =
     Some (status_reply_tree (''UpdateDelegateResponse'', ''Error'', ''ErrorDelegateNotFound''))"
  "mock_fromstring (status_reply_xml (''GetDelegateResponse'', ''Error'', ''ErrorAccessDenied'')) =
     Some (status_reply_tree (''GetDelegateResponse'', ''Error'', ''ErrorAccessDenied''))"
  "mock_fromstring (status_reply_xml (''AddDelegateResponse'', ''Error'', ''ErrorAccessDenied'')) =
     Some (status_reply_tree (''AddDelegateResponse'', ''Error'', ''ErrorAccessDenied''))"
  "mock_fromstring (status_reply_xml (''UpdateDelegateResponse'', ''Error'', ''ErrorAccessDenied'')) =
     Some (status_reply_tree (''UpdateDelegateResponse'', ''Error'', ''ErrorAccessDenied''))"
  unfolding mock_fromstring_def mock_lists_def mock_statuses_def
  by (simp_all add: get_reply_xml_def status_reply_xml_def reply_xml_def delegate_user_xml_def)

lemma mock_read_post:
  assumes "s \<in> {Absent, NoLevel, Author, Reviewer, CaseMix}"
  shows "post_ews mock mgr0 (get_inbox_level_soap cmt0 mgr0) (Some (owner_upn mgr0)) \<lparr>sent = l, server = s\<rparr>
            = (Inr (get_reply_xml (listed s)), \<lparr>sent = l @ [get_req0], server = s\<rparr>)
         \<and> fromstring mock (get_reply_xml (listed s)) = Some (get_reply_tree (listed s))"
proof -
  have r: "respond mock get_req0 s = (Some (ok_response (get_reply_xml (listed s))), s)"
    using assms by (auto simp: mock_def call_get)
  have p: "post_ews mock mgr0 (get_inbox_level_soap cmt0 mgr0) (Some (owner_upn mgr0)) \<lparr>sent = l, server = s\<rparr>
            = (Inr (get_reply_xml (listed s)), \<lparr>sent = l @ [get_req0], server = s\<rparr>)"
    using post_ews_ok[of mock mgr0 _ _ "\<lparr>sent = l, server = s\<rparr>" "ok_response (get_reply_xml (listed s))" s] r
    by (simp add: ok_response_def get_reply_xml_def reply_not_html)
  have f: "fromstring mock (get_reply_xml (listed s)) = Some (get_reply_tree (listed s))"
    using assms parse_get by (auto simp: mock_def)
  show ?thesis using p f by simp
qed

lemma mock_get:
  assumes "s \<in> {Absent, NoLevel, Author, Reviewer, CaseMix}"
  shows "get_inbox_level mock cmt0 mgr0 \<lparr>sent = l, server = s\<rparr> =
           (Inr (delegate_records (get_reply_tree (listed s))), \<lparr>sent = l @ [get_req0], server = s\<rparr>)"
  using mock_read_post[OF assms, of l] by (simp add: get_inbox_level_def)

lemma mock_write:
  assumes "respond mock (ews_request mgr0 soap (Some (owner_upn mgr0))) s = (Some (ok_response (status_reply_xml r)), s')"
    and "r \<in> set mock_statuses"
  shows "post_ews mock mgr0 soap (Some (owner_upn mgr0)) \<lparr>sent = l, server = s\<rparr> =
           (Inr (status_reply_xml r), \<lparr>sent = l @ [ews_request mgr0 soap (Some (owner_upn mgr0))], server = s'\<rparr>)
         \<and> fromstring mock (status_reply_xml r) = Some (status_reply_tree r)"
proof -
  have "\<not> is_html (status_reply_xml r)"
    by (cases r) (simp add: status_reply_xml_def reply_not_html)
  then have "post_ews mock mgr0 soap (Some (owner_upn mgr0)) \<lparr>sent = l, server = s\<rparr> =
           (Inr (status_reply_xml r), \<lparr>sent = l @ [ews_request mgr0 soap (Some (owner_upn mgr0))], server = s'\<rparr>)"
    using post_ews_ok[of mock mgr0 soap _ "\<lparr>sent = l, server = s\<rparr>" "ok_response (status_reply_xml r)" s'] assms(1)
    by (simp add: ok_response_def)
  moreover have "fromstring mock (status_reply_xml r) = Some (status_reply_tree r)"
    using assms(2) parse_status by (auto simp: mock_def mock_statuses_def)
  ultimately show ?thesis by simp
qed

lemma outcome_status:
  "name \<noteq> ''ResponseCode'' \<Longrightarrow> write_outcome name success (status_reply_tree (name, cls, code)) =
     (if cls = ''Success'' then (True, Some success) else (False, Some code))"
  by (simp add: write_outcome_def status_reply_tree_def reply_tree_def find_descendant_def
      findall_descendant_def select_descendant_def first_def qname_def NS_M_def SOAP_NS_def)

lemma respond_add:
  "respond mock add_req0 Absent =
     (Some (ok_response (status_reply_xml (''AddDelegateResponse'', ''Success'', ''NoError''))), Reviewer)"
  "s \<in> {NoLevel, Author, Reviewer, CaseMix} \<Longrightarrow> respond mock add_req0 s =
     (Some (ok_response (status_reply_xml (''AddDelegateResponse'', ''Error'', ''ErrorDelegateAlreadyExists''))), s)"
  "respond mock add_req0 Denied =
     (Some (ok_response (status_reply_xml (''AddDelegateResponse'', ''Error'', ''ErrorAccessDenied''))), Denied)"
  by (auto simp: mock_def call_add response_name_def)

lemma respond_update:
  "s \<in> {NoLevel, Author, Reviewer} \<Longrightarrow> respond mock upd_req0 s =
     (Some (ok_response (status_reply_xml (''UpdateDelegateResponse'', ''Success'', ''NoError''))), Reviewer)"
  by (auto simp: mock_def call_update)

lemma mock_add:
  "add_delegate_inbox_reviewer mock mgr0 ''b@x.com'' False False ''DelegatesAndSendInformationToMe''
     \<lparr>sent = l, server = Absent\<rparr> =
   (Inr (True, Some ''AddDelegate Success''), \<lparr>sent = l @ [add_req0], server = Reviewer\<rparr>)"
  "s \<in> {NoLevel, Author, Reviewer, CaseMix} \<Longrightarrow>
   add_delegate_inbox_reviewer mock mgr0 ''b@x.com'' False False ''DelegatesAndSendInformationToMe''
     \<lparr>sent = l, server = s\<rparr> =
   (Inr (False, Some ''ErrorDelegateAlreadyExists''), \<lparr>sent = l @ [add_req0], server = s\<rparr>)"
  "add_delegate_inbox_reviewer mock mgr0 ''b@x.com'' False False ''DelegatesAndSendInformationToMe''
     \<lparr>sent = l, server = Denied\<rparr> =
   (Inr (False, Some ''ErrorAccessDenied''), \<lparr>sent = l @ [add_req0], server = Denied\<rparr>)"
  using mock_write[OF respond_add(1), of l] mock_write[OF respond_add(2), of s l]
    mock_write[OF respond_add(3), of l]
  by (simp_all add: add_delegate_inbox_reviewer_def mock_statuses_def outcome_status)

lemma mock_update:
  "s \<in> {NoLevel, Author, Reviewer} \<Longrightarrow>
   update_delegate_inbox mock mgr0 ''b@x.com'' ''Reviewer'' \<lparr>sent = l, server = s\<rparr> =
   (Inr (True, Some ''UpdateDelegate Success''), \<lparr>sent = l @ [upd_req0], server = Reviewer\<rparr>)"
  using mock_write[OF respond_update, of s l]
  by (simp add: update_delegate_inbox_def mock_statuses_def outcome_status)

lemma mock_reads:
  "get_inbox_level mock cmt0 mgr0 \<lparr>sent = l, server = Absent\<rparr> =
     (Inr [(''a@x.com'', Some ''Reviewer'')], \<lparr>sent = l @ [get_req0], server = Absent\<rparr>)"
  "get_inbox_level mock cmt0 mgr0 \<lparr>sent = l, server = NoLevel\<rparr> =
     (Inr [(''a@x.com'', Some ''Reviewer''), (''b@x.com'', None)], \<lparr>sent = l @ [get_req0], server = NoLevel\<rparr>)"
  "get_inbox_level mock cmt0 mgr0 \<lparr>sent = l, server = Author\<rparr> =
     (Inr [(''a@x.com'', Some ''Reviewer''), (''b@x.com'', Some ''Author'')],
      \<lparr>sent = l @ [get_req0], server = Author\<rparr>)"
  "get_inbox_level mock cmt0 mgr0 \<lparr>sent = l, server = Reviewer\<rparr> =
     (Inr [(''a@x.com'', Some ''Reviewer''), (''b@x.com'', Some ''Reviewer'')],
      \<lparr>sent = l @ [get_req0], server = Reviewer\<rparr>)"
  "get_inbox_level mock cmt0 mgr0 \<lparr>sent = l, server = CaseMix\<rparr> =
     (Inr [(''john@example.com'', Some ''Reviewer'')], \<lparr>sent = l @ [get_req0], server = CaseMix\<rparr>)"
  by (simp_all add: mock_get records_listed del: listed.simps)

lemma found_level_none:
  "\<forall>(u, l) \<in> set recs. u \<noteq> t \<Longrightarrow> found_level recs t = None"
  by (induction recs) auto


section \<open>The reconciliation\<close>

lemma add_delegate_body:
  \<open>add_delegate_soap mgr delegate_upn False False ''DelegatesAndSendInformationToMe'' =
             ''<?xml version="1.0" encoding="utf-8"?>\<newline>'' @
             ''<soap:Envelope xmlns:soap="http://schemas.xmlsoap.org/soap/envelope/" xmlns:t="http://schemas.microsoft.com/exchange/services/2006/types" xmlns:m="http://schemas.microsoft.com/exchange/services/2006/messages">\<newline>'' @
             ''<soap:Header><t:RequestServerVersion Version="Exchange2010_SP2"/></soap:Header>\<newline>'' @
             ''<soap:Body>\<newline>'' @
             ''<m:AddDelegate>\<newline>'' @
             ''<m:Mailbox><t:EmailAddress>'' @ owner_upn mgr @ ''</t:EmailAddress></m:Mailbox>\<newline>'' @
             ''<m:DelegateUsers>\<newline>'' @
             ''<t:DelegateUser>\<newline>'' @
             ''<t:UserId><t:PrimarySmtpAddress>'' @ delegate_upn @ ''</t:PrimarySmtpAddress></t:UserId>\<newline>'' @
             ''<t:DelegatePermissions>\<newline>'' @
             ''<t:InboxFolderPermissionLevel>Reviewer</t:InboxFolderPermissionLevel>\<newline>'' @
             ''</t:DelegatePermissions>\<newline>'' @
             ''<t:ReceiveCopiesOfMeetingMessages>false</t:ReceiveCopiesOfMeetingMessages>\<newline>'' @
             ''<t:ViewPrivateItems>false</t:ViewPrivateItems>\<newline>'' @
             ''</t:DelegateUser>\<newline>'' @
             ''</m:DelegateUsers>\<newline>'' @
             ''<m:DeliverMeetingRequests>DelegatesAndSendInformationToMe</m:DeliverMeetingRequests>\<newline>'' @
             ''</m:AddDelegate>\<newline>'' @
             ''</soap:Body>\<newline>'' @
             ''</soap:Envelope>''\<close>
  by (simp add: add_delegate_soap_def envelope_open_def soap_header_def lower_def str_bool_def
      is_upper_def)

text \<open>
  C3. When the read step returns a delegate list in which no entry's lower-cased address
  equals the lower-cased target, \<open>ensure_inbox_reviewer\<close> is the call of
  \<open>add_delegate_inbox_reviewer\<close> with the default flags in the world the read left: it
  returns that call's outcome, and the requests it sends are the GetDelegate request of
  the read followed by one AddDelegate request. That request goes to the URL of the
  manager, and its body is the AddDelegate document for the owner and the target as
  given, with the inbox level \<open>Reviewer\<close>, both flags \<open>false\<close> and the delivery
  \<open>DelegatesAndSendInformationToMe\<close>. No UpdateDelegate request is sent: neither body is
  the body of an UpdateDelegate request.
\<close>

theorem ensure_absent_adds:
  assumes \<open>get_inbox_level ext cmt mgr wd = (Inr recs, wd')\<close>
    and \<open>\<forall>(u, l) \<in> set recs. lower u \<noteq> lower delegate_upn\<close>
  shows \<open>ensure_inbox_reviewer ext cmt mgr delegate_upn wd =
           add_delegate_inbox_reviewer ext mgr delegate_upn False False
             ''DelegatesAndSendInformationToMe'' wd'
         \<and> sent (snd (ensure_inbox_reviewer ext cmt mgr delegate_upn wd)) =
             sent wd @
             [ews_request mgr (get_inbox_level_soap cmt mgr) (Some (owner_upn mgr)),
              ews_request mgr (add_delegate_soap mgr delegate_upn False False
                 ''DelegatesAndSendInformationToMe'') (Some (owner_upn mgr))]
         \<and> url (last (sent (snd (ensure_inbox_reviewer ext cmt mgr delegate_upn wd)))) = ews_url mgr
         \<and> data (last (sent (snd (ensure_inbox_reviewer ext cmt mgr delegate_upn wd)))) =
             ''<?xml version="1.0" encoding="utf-8"?>\<newline>'' @
             ''<soap:Envelope xmlns:soap="http://schemas.xmlsoap.org/soap/envelope/" xmlns:t="http://schemas.microsoft.com/exchange/services/2006/types" xmlns:m="http://schemas.microsoft.com/exchange/services/2006/messages">\<newline>'' @
             ''<soap:Header><t:RequestServerVersion Version="Exchange2010_SP2"/></soap:Header>\<newline>'' @
             ''<soap:Body>\<newline>'' @
             ''<m:AddDelegate>\<newline>'' @
             ''<m:Mailbox><t:EmailAddress>'' @ owner_upn mgr @ ''</t:EmailAddress></m:Mailbox>\<newline>'' @
             ''<m:DelegateUsers>\<newline>'' @
             ''<t:DelegateUser>\<newline>'' @
             ''<t:UserId><t:PrimarySmtpAddress>'' @ delegate_upn @ ''</t:PrimarySmtpAddress></t:UserId>\<newline>'' @
             ''<t:DelegatePermissions>\<newline>'' @
             ''<t:InboxFolderPermissionLevel>Reviewer</t:InboxFolderPermissionLevel>\<newline>'' @
             ''</t:DelegatePermissions>\<newline>'' @
             ''<t:ReceiveCopiesOfMeetingMessages>false</t:ReceiveCopiesOfMeetingMessages>\<newline>'' @
             ''<t:ViewPrivateItems>false</t:ViewPrivateItems>\<newline>'' @
             ''</t:DelegateUser>\<newline>'' @
             ''</m:DelegateUsers>\<newline>'' @
             ''<m:DeliverMeetingRequests>DelegatesAndSendInformationToMe</m:DeliverMeetingRequests>\<newline>'' @
             ''</m:AddDelegate>\<newline>'' @
             ''</soap:Body>\<newline>'' @
             ''</soap:Envelope>''
         \<and> (\<forall>m' d' l'. get_inbox_level_soap cmt mgr \<noteq> update_delegate_soap m' d' l'
               \<and> add_delegate_soap mgr delegate_upn False False ''DelegatesAndSendInformationToMe''
                   \<noteq> update_delegate_soap m' d' l')\<close>
proof -
  have \<open>\<forall>(u, l) \<in> set recs. u \<noteq> lower delegate_upn\<close>
    using assms get_inbox_level_lower[OF assms(1)] by fastforce
  then have none: \<open>found_level recs (lower delegate_upn) = None\<close>
    by (rule found_level_none)
  have e: \<open>ensure_inbox_reviewer ext cmt mgr delegate_upn wd =
           add_delegate_inbox_reviewer ext mgr delegate_upn False False
             ''DelegatesAndSendInformationToMe'' wd'\<close>
    by (simp add: ensure_inbox_reviewer_def assms(1) none)
  obtain r w where a: \<open>add_delegate_inbox_reviewer ext mgr delegate_upn False False
             ''DelegatesAndSendInformationToMe'' wd' = (r, w)\<close>
    by (cases \<open>add_delegate_inbox_reviewer ext mgr delegate_upn False False
             ''DelegatesAndSendInformationToMe'' wd'\<close>)
  have s: \<open>sent (snd (ensure_inbox_reviewer ext cmt mgr delegate_upn wd)) =
             sent wd @
             [ews_request mgr (get_inbox_level_soap cmt mgr) (Some (owner_upn mgr)),
              ews_request mgr (add_delegate_soap mgr delegate_upn False False
                 ''DelegatesAndSendInformationToMe'') (Some (owner_upn mgr))]\<close>
    using e a add_delegate_sent[OF a] get_inbox_level_sent[OF assms(1)] by simp
  have u: \<open>url (last (sent (snd (ensure_inbox_reviewer ext cmt mgr delegate_upn wd)))) = ews_url mgr\<close>
    unfolding s by (simp add: ews_request_def)
  have d: \<open>data (last (sent (snd (ensure_inbox_reviewer ext cmt mgr delegate_upn wd)))) =
             add_delegate_soap mgr delegate_upn False False ''DelegatesAndSendInformationToMe''\<close>
    unfolding s by (simp add: ews_request_def)
  show ?thesis
    using e s u d[unfolded add_delegate_body] soap_get_neq_update soap_add_neq_update
    by (intro conjI allI; assumption?) auto
qed

theorem ensure_absent_adds_witness:
  \<open>ensure_inbox_reviewer mock cmt0 mgr0 ''b@x.com'' (fresh Absent) =
     (Inr (True, Some ''AddDelegate Success''),
      \<lparr>sent = [get_req0, add_req0], server = Reviewer\<rparr>)
   \<and> url add_req0 = ''https://mail.x.com/EWS/Exchange.asmx''
   \<and> data add_req0 =
         ''<?xml version="1.0" encoding="utf-8"?>\<newline>'' @
         ''<soap:Envelope xmlns:soap="http://schemas.xmlsoap.org/soap/envelope/" xmlns:t="http://schemas.microsoft.com/exchange/services/2006/types" xmlns:m="http://schemas.microsoft.com/exchange/services/2006/messages">\<newline>'' @
         ''<soap:Header><t:RequestServerVersion Version="Exchange2010_SP2"/></soap:Header>\<newline>'' @
         ''<soap:Body>\<newline>'' @
         ''<m:AddDelegate>\<newline>'' @
         ''<m:Mailbox><t:EmailAddress>owner@x.com</t:EmailAddress></m:Mailbox>\<newline>'' @
         ''<m:DelegateUsers>\<newline>'' @
         ''<t:DelegateUser>\<newline>'' @
         ''<t:UserId><t:PrimarySmtpAddress>b@x.com</t:PrimarySmtpAddress></t:UserId>\<newline>'' @
         ''<t:DelegatePermissions>\<newline>'' @
         ''<t:InboxFolderPermissionLevel>Reviewer</t:InboxFolderPermissionLevel>\<newline>'' @
         ''</t:DelegatePermissions>\<newline>'' @
         ''<t:ReceiveCopiesOfMeetingMessages>false</t:ReceiveCopiesOfMeetingMessages>\<newline>'' @
         ''<t:ViewPrivateItems>false</t:ViewPrivateItems>\<newline>'' @
         ''</t:DelegateUser>\<newline>'' @
         ''</m:DelegateUsers>\<newline>'' @
         ''<m:DeliverMeetingRequests>DelegatesAndSendInformationToMe</m:DeliverMeetingRequests>\<newline>'' @
         ''</m:AddDelegate>\<newline>'' @
         ''</soap:Body>\<newline>'' @
         ''</soap:Envelope>''\<close>
proof -
  note t = ensure_absent_adds[of mock cmt0 mgr0 \<open>fresh Absent\<close> \<open>[(''a@x.com'', Some ''Reviewer'')]\<close>
      \<open>\<lparr>sent = [get_req0], server = Absent\<rparr>\<close> \<open>''b@x.com''\<close>]
  have h1: \<open>get_inbox_level mock cmt0 mgr0 (fresh Absent) =
      (Inr [(''a@x.com'', Some ''Reviewer'')], \<lparr>sent = [get_req0], server = Absent\<rparr>)\<close>
    using mock_reads(1)[of \<open>[]\<close>] by (simp add: fresh_def)
  have h2: \<open>\<forall>(u, l) \<in> set [(''a@x.com'', Some ''Reviewer'')]. lower u \<noteq> lower ''b@x.com''\<close>
    by (simp add: lower_a)
  note c = t[OF h1 h2]
  have e: \<open>ensure_inbox_reviewer mock cmt0 mgr0 ''b@x.com'' (fresh Absent) =
     (Inr (True, Some ''AddDelegate Success''),
      \<lparr>sent = [get_req0, add_req0], server = Reviewer\<rparr>)\<close>
    using c mock_add(1)[of \<open>[get_req0]\<close>] by simp
  have l: \<open>last (sent (snd (ensure_inbox_reviewer mock cmt0 mgr0 ''b@x.com'' (fresh Absent)))) = add_req0\<close>
    by (simp add: e)
  have u: \<open>url add_req0 = ''https://mail.x.com/EWS/Exchange.asmx''\<close>
    using c[THEN conjunct2, THEN conjunct2, THEN conjunct1] unfolding l
    by (simp add: mgr0_def)
  have d: \<open>data add_req0 =
         ''<?xml version="1.0" encoding="utf-8"?>\<newline>'' @
         ''<soap:Envelope xmlns:soap="http://schemas.xmlsoap.org/soap/envelope/" xmlns:t="http://schemas.microsoft.com/exchange/services/2006/types" xmlns:m="http://schemas.microsoft.com/exchange/services/2006/messages">\<newline>'' @
         ''<soap:Header><t:RequestServerVersion Version="Exchange2010_SP2"/></soap:Header>\<newline>'' @
         ''<soap:Body>\<newline>'' @
         ''<m:AddDelegate>\<newline>'' @
         ''<m:Mailbox><t:EmailAddress>owner@x.com</t:EmailAddress></m:Mailbox>\<newline>'' @
         ''<m:DelegateUsers>\<newline>'' @
         ''<t:DelegateUser>\<newline>'' @
         ''<t:UserId><t:PrimarySmtpAddress>b@x.com</t:PrimarySmtpAddress></t:UserId>\<newline>'' @
         ''<t:DelegatePermissions>\<newline>'' @
         ''<t:InboxFolderPermissionLevel>Reviewer</t:InboxFolderPermissionLevel>\<newline>'' @
         ''</t:DelegatePermissions>\<newline>'' @
         ''<t:ReceiveCopiesOfMeetingMessages>false</t:ReceiveCopiesOfMeetingMessages>\<newline>'' @
         ''<t:ViewPrivateItems>false</t:ViewPrivateItems>\<newline>'' @
         ''</t:DelegateUser>\<newline>'' @
         ''</m:DelegateUsers>\<newline>'' @
         ''<m:DeliverMeetingRequests>DelegatesAndSendInformationToMe</m:DeliverMeetingRequests>\<newline>'' @
         ''</m:AddDelegate>\<newline>'' @
         ''</soap:Body>\<newline>'' @
         ''</soap:Envelope>''\<close>
    using c[THEN conjunct2, THEN conjunct2, THEN conjunct2, THEN conjunct1] unfolding l
    by (simp add: mgr0_def)
  show ?thesis using e u d by simp
qed

lemma get_inbox_level_server:
  "get_inbox_level ext cmt mgr wd = (r, wd') \<Longrightarrow>
     server wd' = snd (respond ext (ews_request mgr (get_inbox_level_soap cmt mgr) (Some (owner_upn mgr))) (server wd))"
  by (auto simp: get_inbox_level_def split: prod.splits sum.splits option.splits dest: post_ews_server)

lemma found_level_first:
  assumes "get_inbox_level ext cmt mgr wd = (Inr recs, wd')"
    and "List.find (\<lambda>(u, l). lower u = lower d) recs = Some (u, lv)"
  shows "found_level recs (lower d) = lv"
proof -
  have "\<forall>(u, l) \<in> set recs. lower u = u"
    using get_inbox_level_lower[OF assms(1)] by auto
  then have "List.find (\<lambda>(u, l). u = lower d) recs = Some (u, lv)"
    using assms(2) find_lower_cong[of recs "lower d"] by simp
  then show ?thesis by (simp add: found_level_find)
qed

text \<open>
  C2. When the entry of the target in the list read (the first entry whose lower-cased
  address is the lower-cased target, should the list name the target more than once) has
  the level \<open>Reviewer\<close>, \<open>ensure_inbox_reviewer\<close> returns success with the message
  \<open>Already Reviewer\<close> and leaves the world as the read left it: the only request sent is
  the GetDelegate request, whose body is not the body of an AddDelegate or UpdateDelegate
  request, and the state of the server is the one in which answering that request left
  it.
\<close>

theorem ensure_reviewer_no_write:
  assumes "get_inbox_level ext cmt mgr wd = (Inr recs, wd')"
    and "List.find (\<lambda>(u, l). lower u = lower delegate_upn) recs = Some (u, Some ''Reviewer'')"
  shows "ensure_inbox_reviewer ext cmt mgr delegate_upn wd = (Inr (True, Some ''Already Reviewer''), wd')
         \<and> sent wd' = sent wd @ [ews_request mgr (get_inbox_level_soap cmt mgr) (Some (owner_upn mgr))]
         \<and> server wd' =
             snd (respond ext (ews_request mgr (get_inbox_level_soap cmt mgr) (Some (owner_upn mgr)))
                    (server wd))
         \<and> (\<forall>m' d' rc vp dm l'.
               get_inbox_level_soap cmt mgr \<noteq> add_delegate_soap m' d' rc vp dm
               \<and> get_inbox_level_soap cmt mgr \<noteq> update_delegate_soap m' d' l')"
  using found_level_first[OF assms] get_inbox_level_sent[OF assms(1)] get_inbox_level_server[OF assms(1)]
  by (simp add: ensure_inbox_reviewer_def assms(1) soap_get_neq_add soap_get_neq_update)

lemma lower_B: "lower ''B@X.com'' = ''b@x.com''"
  by (simp add: lower_def is_upper_def)

theorem ensure_reviewer_no_write_witness:
  "ensure_inbox_reviewer mock cmt0 mgr0 ''B@X.com'' (fresh Reviewer) =
     (Inr (True, Some ''Already Reviewer''), \<lparr>sent = [get_req0], server = Reviewer\<rparr>)"
  using ensure_reviewer_no_write[of mock cmt0 mgr0 "fresh Reviewer"
      "[(''a@x.com'', Some ''Reviewer''), (''b@x.com'', Some ''Reviewer'')]"
      "\<lparr>sent = [get_req0], server = Reviewer\<rparr>" "''B@X.com''" "''b@x.com''"]
    mock_reads(4)[of "[]"]
  by (simp add: fresh_def lower_a lower_B)

lemma ensure_level_none:
  assumes "get_inbox_level ext cmt mgr wd = (Inr recs, wd')"
    and "List.find (\<lambda>(u, l). lower u = lower delegate_upn) recs = Some (u, None)"
  shows "ensure_inbox_reviewer ext cmt mgr delegate_upn wd =
           add_delegate_inbox_reviewer ext mgr delegate_upn False False
             ''DelegatesAndSendInformationToMe'' wd'"
  using found_level_first[OF assms] by (simp add: ensure_inbox_reviewer_def assms(1))

lemma ensure_level_other:
  assumes "get_inbox_level ext cmt mgr wd = (Inr recs, wd')"
    and "List.find (\<lambda>(u, l). lower u = lower delegate_upn) recs = Some (u, Some lv)"
    and "lv \<noteq> ''Reviewer''"
  shows "ensure_inbox_reviewer ext cmt mgr delegate_upn wd =
           update_delegate_inbox ext mgr delegate_upn ''Reviewer'' wd'"
  using found_level_first[OF assms(1,2)] assms(3) by (simp add: ensure_inbox_reviewer_def assms(1))

text \<open>
  C1, at the input where the code departs from it. The server lists \<open>b@x.com\<close> with no
  inbox permission level. The read returns the pair \<open>(b@x.com, None)\<close>; the loop stores
  \<open>None\<close> in \<open>found_level\<close>, which is also its value when nothing matches, and
  \<open>ensure_inbox_reviewer\<close> sends an AddDelegate request for a delegate that exists, not
  an UpdateDelegate request. This server refuses it. (For every server,
  \<open>ensure_level_none\<close> is the same fact; when the entry has a level other than
  \<open>Reviewer\<close>, the code does call \<open>update_delegate_inbox\<close>: \<open>ensure_level_other\<close>.)
\<close>

theorem ensure_level_absent_adds:
  "get_inbox_level mock cmt0 mgr0 (fresh NoLevel) =
     (Inr [(''a@x.com'', Some ''Reviewer''), (''b@x.com'', None)], \<lparr>sent = [get_req0], server = NoLevel\<rparr>)
   \<and> ensure_inbox_reviewer mock cmt0 mgr0 ''b@x.com'' (fresh NoLevel) =
     (Inr (False, Some ''ErrorDelegateAlreadyExists''), \<lparr>sent = [get_req0, add_req0], server = NoLevel\<rparr>)
   \<and> add_req0 \<noteq> upd_req0"
  using ensure_level_none[of mock cmt0 mgr0 "fresh NoLevel"
      "[(''a@x.com'', Some ''Reviewer''), (''b@x.com'', None)]"
      "\<lparr>sent = [get_req0], server = NoLevel\<rparr>" "''b@x.com''" "''b@x.com''"]
    mock_reads(2)[of "[]"] mock_add(2)[of NoLevel "[get_req0]"]
    soap_add_neq_update[of mgr0 "''b@x.com''" False False "''DelegatesAndSendInformationToMe''" mgr0 "''b@x.com''" "''Reviewer''"]
  by (simp add: fresh_def lower_a ews_request_def)

text \<open>
  C5. When the GetDelegate request is answered by a body that parses and the tree has no
  \<open>DelegateUser\<close> element, whatever else it holds (an error reply included),
  \<open>get_inbox_level\<close> raises nothing and yields the empty sequence, and
  \<open>ensure_inbox_reviewer\<close> goes on to the AddDelegate call, as it does when the mailbox
  has no delegates.
\<close>

theorem read_without_delegate_user:
  assumes "post_ews ext mgr (get_inbox_level_soap cmt mgr) (Some (owner_upn mgr)) wd = (Inr xml, wd')"
    and "fromstring ext xml = Some root"
    and "\<forall>e \<in> set (iter root). tag e \<noteq> qname NS_T ''DelegateUser''"
  shows "get_inbox_level ext cmt mgr wd = (Inr [], wd')
         \<and> ensure_inbox_reviewer ext cmt mgr delegate_upn wd =
             add_delegate_inbox_reviewer ext mgr delegate_upn False False
               ''DelegatesAndSendInformationToMe'' wd'"
proof -
  have "set (tl (iter root)) \<subseteq> set (iter root)"
    by (cases root) auto
  then have "findall_descendant NS_T ''DelegateUser'' root = []"
    using assms(3) by (auto simp: findall_descendant_eq filter_empty_conv)
  then have "delegate_records root = []"
    by (simp add: delegate_records_def List.map_filter_def)
  then have g: "get_inbox_level ext cmt mgr wd = (Inr [], wd')"
    by (simp add: get_inbox_level_def assms(1,2))
  then show ?thesis by (simp add: ensure_inbox_reviewer_def)
qed

lemma denied_read:
  "post_ews mock mgr0 (get_inbox_level_soap cmt0 mgr0) (Some (owner_upn mgr0)) \<lparr>sent = l, server = Denied\<rparr> =
     (Inr (status_reply_xml (''GetDelegateResponse'', ''Error'', ''ErrorAccessDenied'')),
      \<lparr>sent = l @ [get_req0], server = Denied\<rparr>)
   \<and> fromstring mock (status_reply_xml (''GetDelegateResponse'', ''Error'', ''ErrorAccessDenied'')) =
       Some (status_reply_tree (''GetDelegateResponse'', ''Error'', ''ErrorAccessDenied''))"
proof -
  have "respond mock get_req0 Denied =
     (Some (ok_response (status_reply_xml (''GetDelegateResponse'', ''Error'', ''ErrorAccessDenied''))), Denied)"
    by (simp add: mock_def call_get response_name_def)
  from mock_write[OF this, of l] show ?thesis by (simp add: mock_statuses_def)
qed

theorem read_without_delegate_user_witness:
  "get_inbox_level mock cmt0 mgr0 (fresh Denied) = (Inr [], \<lparr>sent = [get_req0], server = Denied\<rparr>)
   \<and> ensure_inbox_reviewer mock cmt0 mgr0 ''b@x.com'' (fresh Denied) =
       (Inr (False, Some ''ErrorAccessDenied''), \<lparr>sent = [get_req0, add_req0], server = Denied\<rparr>)"
proof -
  have t: "\<forall>e \<in> set (iter (status_reply_tree (''GetDelegateResponse'', ''Error'', ''ErrorAccessDenied''))).
             tag e \<noteq> qname NS_T ''DelegateUser''"
    using tags_neq by (simp add: status_reply_tree_def reply_tree_def eq_commute[of _ "qname NS_T ''DelegateUser''"])
  show ?thesis
    using read_without_delegate_user[OF conjunct1[OF denied_read] conjunct2[OF denied_read] t, of "[]" "''b@x.com''"]
      mock_add(3)[of "[get_req0]"]
    by (simp add: fresh_def)
qed

lemma write_outcome_eq:
  "write_outcome name success root =
     (if response_success name root then (True, Some success) else (False, failure_message root))"
  by (simp add: write_outcome_def response_success_def failure_message_def find_descendant_eq
      split: option.splits)

text \<open>
  C7. For a response that arrives and parses, \<open>add_delegate_inbox_reviewer\<close> and
  \<open>update_delegate_inbox\<close> return success, with the fixed strings \<open>AddDelegate Success\<close>
  and \<open>UpdateDelegate Success\<close>, exactly when the response element of the operation
  carries \<open>ResponseClass="Success"\<close>; otherwise they return \<open>False\<close> with the text of the
  \<open>ResponseCode\<close> element, or with \<open>UnknownError\<close> when the response has no such element.
\<close>

theorem write_outcome_contract:
  "(post_ews ext mgr (add_delegate_soap mgr d rc vp dm) (Some (owner_upn mgr)) wd = (Inr xml, wd')
      \<and> fromstring ext xml = Some root \<longrightarrow>
    add_delegate_inbox_reviewer ext mgr d rc vp dm wd =
      (Inr (if response_success ''AddDelegateResponse'' root then (True, Some ''AddDelegate Success'')
            else (False, failure_message root)), wd'))
   \<and> (post_ews ext mgr (update_delegate_soap mgr d level) (Some (owner_upn mgr)) wd = (Inr xml, wd')
      \<and> fromstring ext xml = Some root \<longrightarrow>
    update_delegate_inbox ext mgr d level wd =
      (Inr (if response_success ''UpdateDelegateResponse'' root then (True, Some ''UpdateDelegate Success'')
            else (False, failure_message root)), wd'))"
  by (simp add: add_delegate_inbox_reviewer_def update_delegate_inbox_def write_outcome_eq)

lemma status_success:
  "name \<noteq> ''ResponseCode'' \<Longrightarrow> response_success name (status_reply_tree (name, cls, code)) = (cls = ''Success'')"
  "name \<noteq> ''ResponseCode'' \<Longrightarrow> failure_message (status_reply_tree (name, cls, code)) = Some code"
  by (simp_all add: response_success_def failure_message_def status_reply_tree_def reply_tree_def
      qname_def NS_M_def SOAP_NS_def)

theorem write_outcome_contract_witness:
  "add_delegate_inbox_reviewer mock mgr0 ''b@x.com'' False False ''DelegatesAndSendInformationToMe'' (fresh Absent)
     = (Inr (True, Some ''AddDelegate Success''), \<lparr>sent = [add_req0], server = Reviewer\<rparr>)
   \<and> add_delegate_inbox_reviewer mock mgr0 ''b@x.com'' False False ''DelegatesAndSendInformationToMe'' (fresh Author)
     = (Inr (False, Some ''ErrorDelegateAlreadyExists''), \<lparr>sent = [add_req0], server = Author\<rparr>)
   \<and> update_delegate_inbox mock mgr0 ''b@x.com'' ''Reviewer'' (fresh Author)
     = (Inr (True, Some ''UpdateDelegate Success''), \<lparr>sent = [upd_req0], server = Reviewer\<rparr>)"
proof -
  note a1 = mock_write[OF respond_add(1), of "[]"]
  have "Author \<in> {NoLevel, Author, Reviewer, CaseMix}" by simp
  note a2 = mock_write[OF respond_add(2)[OF this], of "[]"]
  have "Author \<in> {NoLevel, Author, Reviewer}" by simp
  note u = mock_write[OF respond_update[OF this], of "[]"]
  have 1: "add_delegate_inbox_reviewer mock mgr0 ''b@x.com'' False False ''DelegatesAndSendInformationToMe'' (fresh Absent)
     = (Inr (True, Some ''AddDelegate Success''), \<lparr>sent = [add_req0], server = Reviewer\<rparr>)"
    using write_outcome_contract[where ext = mock and mgr = mgr0 and d = "''b@x.com''" and rc = False
        and vp = False and dm = "''DelegatesAndSendInformationToMe''" and wd = "fresh Absent"
        and xml = "status_reply_xml (''AddDelegateResponse'', ''Success'', ''NoError'')"
        and wd' = "\<lparr>sent = [add_req0], server = Reviewer\<rparr>"
        and root = "status_reply_tree (''AddDelegateResponse'', ''Success'', ''NoError'')",
        THEN conjunct1] a1
    by (simp add: fresh_def status_success mock_statuses_def)
  have 2: "add_delegate_inbox_reviewer mock mgr0 ''b@x.com'' False False ''DelegatesAndSendInformationToMe'' (fresh Author)
     = (Inr (False, Some ''ErrorDelegateAlreadyExists''), \<lparr>sent = [add_req0], server = Author\<rparr>)"
    using write_outcome_contract[where ext = mock and mgr = mgr0 and d = "''b@x.com''" and rc = False
        and vp = False and dm = "''DelegatesAndSendInformationToMe''" and wd = "fresh Author"
        and xml = "status_reply_xml (''AddDelegateResponse'', ''Error'', ''ErrorDelegateAlreadyExists'')"
        and wd' = "\<lparr>sent = [add_req0], server = Author\<rparr>"
        and root = "status_reply_tree (''AddDelegateResponse'', ''Error'', ''ErrorDelegateAlreadyExists'')",
        THEN conjunct1] a2
    by (simp add: fresh_def status_success mock_statuses_def)
  have 3: "update_delegate_inbox mock mgr0 ''b@x.com'' ''Reviewer'' (fresh Author)
     = (Inr (True, Some ''UpdateDelegate Success''), \<lparr>sent = [upd_req0], server = Reviewer\<rparr>)"
    using write_outcome_contract[where ext = mock and mgr = mgr0 and d = "''b@x.com''" and level = "''Reviewer''"
        and wd = "fresh Author"
        and xml = "status_reply_xml (''UpdateDelegateResponse'', ''Success'', ''NoError'')"
        and wd' = "\<lparr>sent = [upd_req0], server = Reviewer\<rparr>"
        and root = "status_reply_tree (''UpdateDelegateResponse'', ''Success'', ''NoError'')",
        THEN conjunct2] u
    by (simp add: fresh_def status_success mock_statuses_def)
  show ?thesis using 1 2 3 by simp
qed

lemma strip_Nil: "strip [] = []"
  by (simp add: strip_def)

lemma delegate_entry_emitted:
  "(case delegate_entry du of None \<Rightarrow> [] | Some p \<Rightarrow> [p]) = emitted du"
  by (auto simp: delegate_entry_def emitted_def address_of_def level_of_def or_empty_def strip_Nil
      split: option.splits)

lemma map_filter_concat:
  "List.map_filter f xs = concat (map (\<lambda>x. case f x of None \<Rightarrow> [] | Some p \<Rightarrow> [p]) xs)"
  by (induction xs) (auto simp: List.map_filter_def split: option.splits)

lemma delegate_records_emitted:
  "delegate_records root =
     concat (map emitted (filter (\<lambda>e. tag e = qname NS_T ''DelegateUser'') (tl (iter root))))"
  by (simp add: delegate_records_def map_filter_concat delegate_entry_emitted findall_descendant_eq)

text \<open>
  C8. For a response that arrives and parses, \<open>get_inbox_level\<close> yields, for the
  \<open>DelegateUser\<close> elements below the root in document order, the pair of each entry
  whose address is not missing or empty: the lower-cased address and the inbox level or
  \<open>None\<close>. On the response with the two entries \<open>a@x.com\<close> (Reviewer) and \<open>b@x.com\<close> (no
  inbox level) it yields \<open>[(a@x.com, Reviewer), (b@x.com, None)]\<close>.
\<close>

theorem get_inbox_level_entries:
  "(post_ews ext mgr (get_inbox_level_soap cmt mgr) (Some (owner_upn mgr)) wd = (Inr xml, wd')
      \<and> fromstring ext xml = Some root \<longrightarrow>
    get_inbox_level ext cmt mgr wd =
      (Inr (concat (map emitted (filter (\<lambda>e. tag e = qname NS_T ''DelegateUser'') (tl (iter root))))), wd'))
   \<and> get_inbox_level mock cmt0 mgr0 (fresh NoLevel) =
       (Inr [(''a@x.com'', Some ''Reviewer''), (''b@x.com'', None)],
        \<lparr>sent = [get_req0], server = NoLevel\<rparr>)"
  using mock_reads(2)[of "[]"]
  by (simp add: get_inbox_level_def delegate_records_emitted fresh_def)

theorem get_inbox_level_entries_witness:
  "post_ews mock mgr0 (get_inbox_level_soap cmt0 mgr0) (Some (owner_upn mgr0)) (fresh CaseMix)
     = (Inr (get_reply_xml (listed CaseMix)), \<lparr>sent = [get_req0], server = CaseMix\<rparr>)
   \<and> fromstring mock (get_reply_xml (listed CaseMix)) = Some (get_reply_tree (listed CaseMix))
   \<and> get_inbox_level mock cmt0 mgr0 (fresh CaseMix) =
       (Inr [(''john@example.com'', Some ''Reviewer'')], \<lparr>sent = [get_req0], server = CaseMix\<rparr>)"
proof -
  have "CaseMix \<in> {Absent, NoLevel, Author, Reviewer, CaseMix}" by simp
  note h = mock_read_post[OF this, of "[]"]
  have "get_inbox_level mock cmt0 mgr0 (fresh CaseMix) =
       (Inr (delegate_records (get_reply_tree (listed CaseMix))), \<lparr>sent = [get_req0], server = CaseMix\<rparr>)"
    using get_inbox_level_entries[where ext = mock and cmt = cmt0 and mgr = mgr0 and wd = "fresh CaseMix"
        and xml = "get_reply_xml (listed CaseMix)" and wd' = "\<lparr>sent = [get_req0], server = CaseMix\<rparr>"
        and root = "get_reply_tree (listed CaseMix)", THEN conjunct1] h
    by (simp add: fresh_def delegate_records_emitted del: listed.simps)
  then show ?thesis using h by (simp add: records_listed fresh_def del: listed.simps)
qed

lemma find_exists: "x \<in> set xs \<Longrightarrow> P x \<Longrightarrow> \<exists>y. List.find P xs = Some y \<and> P y"
  by (induction xs) auto

text \<open>
  C9. Matching is case-insensitive. The GetDelegate response parses and holds a
  \<open>DelegateUser\<close> entry whose address, not empty, equals the target up to ASCII case.
  Then the read emits the lower-cased stored address, and \<open>ensure_inbox_reviewer\<close>,
  called with the target as given, finds a match: the list read has a first entry
  whose address equals the target without regard to case, and the call does what the
  level of that entry says. It returns \<open>Already Reviewer\<close> when the level is
  \<open>Reviewer\<close> and calls \<open>update_delegate_inbox\<close> when it is another level; the call
  for an absent delegate is made only when that entry has no level.
\<close>

theorem address_match_ignores_case:
  assumes "post_ews ext mgr (get_inbox_level_soap cmt mgr) (Some (owner_upn mgr)) wd = (Inr xml, wd')"
    and "fromstring ext xml = Some root"
    and "du \<in> set (findall_descendant NS_T ''DelegateUser'' root)"
    and "address_of du = Some stored"
    and "strip stored \<noteq> []"
    and "equal_up_to_ascii_case stored target"
  shows "get_inbox_level ext cmt mgr wd = (Inr (delegate_records root), wd')
         \<and> (lower stored, level_of du) \<in> set (delegate_records root)
         \<and> (\<exists>u lv. List.find (\<lambda>(u, l). lower u = lower target) (delegate_records root) = Some (u, lv)
               \<and> ensure_inbox_reviewer ext cmt mgr target wd =
                   (case lv of
                      None \<Rightarrow> add_delegate_inbox_reviewer ext mgr target False False
                                ''DelegatesAndSendInformationToMe'' wd'
                    | Some l \<Rightarrow>
                        if l = ''Reviewer'' then (Inr (True, Some ''Already Reviewer''), wd')
                        else update_delegate_inbox ext mgr target ''Reviewer'' wd'))"
proof -
  have g: "get_inbox_level ext cmt mgr wd = (Inr (delegate_records root), wd')"
    by (simp add: get_inbox_level_def assms(1,2))
  have eq: "lower stored = lower target"
    using assms(6) by (rule lower_fold)
  have "emitted du = [(lower stored, level_of du)]"
    using assms(4,5) by (simp add: emitted_def)
  then have mem: "(lower stored, level_of du) \<in> set (delegate_records root)"
    using assms(3) by (auto simp: delegate_records_emitted findall_descendant_eq)
  have "(\<lambda>(u, l). lower u = lower target) (lower stored, level_of du)"
    using eq by (simp add: lower_idem)
  from find_exists[of "(lower stored, level_of du)" "delegate_records root"
      "\<lambda>(u, l). lower u = lower target", OF mem this] obtain y where
    y: "List.find (\<lambda>(u, l). lower u = lower target) (delegate_records root) = Some y"
    by blast
  obtain u lv where uv: "y = (u, lv)" by (cases y)
  have f: "found_level (delegate_records root) (lower target) = lv"
    using found_level_first[OF g] y uv by simp
  have "ensure_inbox_reviewer ext cmt mgr target wd =
          (case lv of
             None \<Rightarrow> add_delegate_inbox_reviewer ext mgr target False False
                       ''DelegatesAndSendInformationToMe'' wd'
           | Some l \<Rightarrow>
               if l = ''Reviewer'' then (Inr (True, Some ''Already Reviewer''), wd')
               else update_delegate_inbox ext mgr target ''Reviewer'' wd')"
    using f by (simp add: ensure_inbox_reviewer_def g split: option.splits)
  then show ?thesis using g mem y uv by blast
qed

lemma fold_john:
  "equal_up_to_ascii_case ''John@Example.com'' ''john@example.com''"
  "equal_up_to_ascii_case ''John@Example.com'' ''JOHN@example.COM''"
  by (simp_all add: equal_up_to_ascii_case_def ascii_fold_char_def is_upper_def)

lemma lower_john:
  "lower ''john@example.com'' = ''john@example.com''"
  "lower ''JOHN@example.COM'' = ''john@example.com''"
  "lower ''John@Example.com'' = ''john@example.com''"
  by (simp_all add: lower_def is_upper_def)

lemma john_entry:
  "delegate_user_tree (''John@Example.com'', Some ''Reviewer'')
     \<in> set (findall_descendant NS_T ''DelegateUser'' (get_reply_tree (listed CaseMix)))"
  "address_of (delegate_user_tree (''John@Example.com'', Some ''Reviewer'')) = Some ''John@Example.com''"
proof -
  show "delegate_user_tree (''John@Example.com'', Some ''Reviewer'')
     \<in> set (findall_descendant NS_T ''DelegateUser'' (get_reply_tree (listed CaseMix)))"
    using tags_neq concat_delegate_filter[of "listed CaseMix"]
    by (simp add: findall_descendant_def select_descendant_def get_reply_tree_def reply_tree_def
        eq_commute[of "qname NS_T ''DelegateUser''"])
  show "address_of (delegate_user_tree (''John@Example.com'', Some ''Reviewer'')) = Some ''John@Example.com''"
    by (simp add: address_of_def delegate_user_tree_def find_child2_def select_child_def first_def)
qed

theorem address_match_ignores_case_witness:
  "equal_up_to_ascii_case ''John@Example.com'' ''john@example.com''
   \<and> ensure_inbox_reviewer mock cmt0 mgr0 ''john@example.com'' (fresh CaseMix) =
       (Inr (True, Some ''Already Reviewer''), \<lparr>sent = [get_req0], server = CaseMix\<rparr>)
   \<and> equal_up_to_ascii_case ''John@Example.com'' ''JOHN@example.COM''
   \<and> ensure_inbox_reviewer mock cmt0 mgr0 ''JOHN@example.COM'' (fresh CaseMix) =
       (Inr (True, Some ''Already Reviewer''), \<lparr>sent = [get_req0], server = CaseMix\<rparr>)"
proof -
  have "CaseMix \<in> {Absent, NoLevel, Author, Reviewer, CaseMix}" by simp
  note h = mock_read_post[OF this, of "[]"]
  have p: "post_ews mock mgr0 (get_inbox_level_soap cmt0 mgr0) (Some (owner_upn mgr0)) (fresh CaseMix) =
      (Inr (get_reply_xml (listed CaseMix)), \<lparr>sent = [get_req0], server = CaseMix\<rparr>)"
    using h by (simp add: fresh_def)
  have f: "fromstring mock (get_reply_xml (listed CaseMix)) = Some (get_reply_tree (listed CaseMix))"
    using h by simp
  note t1 = address_match_ignores_case[OF p f john_entry strip_a(3) fold_john(1)]
  note t2 = address_match_ignores_case[OF p f john_entry strip_a(3) fold_john(2)]
  have r: "delegate_records (get_reply_tree (listed CaseMix)) = [(''john@example.com'', Some ''Reviewer'')]"
    by (rule records_listed(5))
  have 1: "ensure_inbox_reviewer mock cmt0 mgr0 ''john@example.com'' (fresh CaseMix) =
       (Inr (True, Some ''Already Reviewer''), \<lparr>sent = [get_req0], server = CaseMix\<rparr>)"
    using t1 unfolding r by (auto simp: lower_john)
  have 2: "ensure_inbox_reviewer mock cmt0 mgr0 ''JOHN@example.COM'' (fresh CaseMix) =
       (Inr (True, Some ''Already Reviewer''), \<lparr>sent = [get_req0], server = CaseMix\<rparr>)"
    using t2 unfolding r by (auto simp: lower_john)
  show ?thesis using 1 2 fold_john by simp
qed


section \<open>The request bodies\<close>

lemma wf_benign:
  "well_formed (add_delegate_soap mgr0 ''b@x.com'' False False ''DelegatesAndSendInformationToMe'')"
  by (simp add: well_formed_def add_delegate_soap_def envelope_open_def soap_header_def mgr0_def
      lower_def str_bool_def is_upper_def name_char_def isspace_def close_tag_def)

lemma wf_lt:
  "\<not> well_formed (add_delegate_soap mgr0 ''<'' False False ''DelegatesAndSendInformationToMe'')"
  by (simp add: well_formed_def add_delegate_soap_def envelope_open_def soap_header_def mgr0_def
      lower_def str_bool_def is_upper_def name_char_def isspace_def close_tag_def)

text \<open>
  C10. The request builders put the owner address, the delegate address, the permission
  level and the meeting-delivery string into the body as they are, between the tags of
  their elements and with no escaping: each body is a fixed prefix, the opening tag, the
  string character for character, the closing tag and a suffix. So a delegate address
  can make the body ill-formed: the AddDelegate body built for the address \<open><\<close> is not
  a well-formed document, while the one built for \<open>b@x.com\<close> is.
\<close>

theorem requests_not_escaped:
  "(\<exists>pre post. get_inbox_level_soap cmt mgr =
      pre @ ''<t:EmailAddress>'' @ owner_upn mgr @ ''</t:EmailAddress>'' @ post)
   \<and> (\<exists>pre post. add_delegate_soap mgr d rc vp dm =
      pre @ ''<t:EmailAddress>'' @ owner_upn mgr @ ''</t:EmailAddress>'' @ post)
   \<and> (\<exists>pre post. add_delegate_soap mgr d rc vp dm =
      pre @ ''<t:PrimarySmtpAddress>'' @ d @ ''</t:PrimarySmtpAddress>'' @ post)
   \<and> (\<exists>pre post. add_delegate_soap mgr d rc vp dm =
      pre @ ''<m:DeliverMeetingRequests>'' @ dm @ ''</m:DeliverMeetingRequests>'' @ post)
   \<and> (\<exists>pre post. update_delegate_soap mgr d level =
      pre @ ''<t:EmailAddress>'' @ owner_upn mgr @ ''</t:EmailAddress>'' @ post)
   \<and> (\<exists>pre post. update_delegate_soap mgr d level =
      pre @ ''<t:PrimarySmtpAddress>'' @ d @ ''</t:PrimarySmtpAddress>'' @ post)
   \<and> (\<exists>pre post. update_delegate_soap mgr d level =
      pre @ ''<t:InboxFolderPermissionLevel>'' @ level @ ''</t:InboxFolderPermissionLevel>'' @ post)
   \<and> well_formed (add_delegate_soap mgr0 ''b@x.com'' False False ''DelegatesAndSendInformationToMe'')
   \<and> \<not> well_formed (add_delegate_soap mgr0 ''<'' False False ''DelegatesAndSendInformationToMe'')"
proof -
  have c1: \<open>\<exists>pre post. get_inbox_level_soap cmt mgr =
      pre @ ''<t:EmailAddress>'' @ owner_upn mgr @ ''</t:EmailAddress>'' @ post\<close>
    unfolding get_inbox_level_soap_def
    by (rule exI[of _
         \<open>envelope_open @
          ''<m:GetDelegate IncludePermissions="true">\<newline>'' @
          ''<m:Mailbox>''\<close>],
        rule exI[of _
         \<open>''</m:Mailbox>\<newline>'' @
          ''<m:UserIds>\<newline>'' @
          ''<!--'' @
          cmt @
          ''-->'' @
          ''\<newline>'' @
          ''</m:UserIds>\<newline>'' @
          ''</m:GetDelegate>\<newline>'' @
          ''</soap:Body>\<newline>'' @
          ''</soap:Envelope>''\<close>])
      simp
  have c2: \<open>\<exists>pre post. add_delegate_soap mgr d rc vp dm =
      pre @ ''<t:EmailAddress>'' @ owner_upn mgr @ ''</t:EmailAddress>'' @ post\<close>
    unfolding add_delegate_soap_def
    by (rule exI[of _
         \<open>envelope_open @
          ''<m:AddDelegate>\<newline>'' @
          ''<m:Mailbox>''\<close>],
        rule exI[of _
         \<open>''</m:Mailbox>\<newline>'' @
          ''<m:DelegateUsers>\<newline>'' @
          ''<t:DelegateUser>\<newline>'' @
          ''<t:UserId><t:PrimarySmtpAddress>'' @
          d @
          ''</t:PrimarySmtpAddress></t:UserId>\<newline>'' @
          ''<t:DelegatePermissions>\<newline>'' @
          ''<t:InboxFolderPermissionLevel>Reviewer</t:InboxFolderPermissionLevel>\<newline>'' @
          ''</t:DelegatePermissions>\<newline>'' @
          ''<t:ReceiveCopiesOfMeetingMessages>'' @
          lower (str_bool rc) @
          ''</t:ReceiveCopiesOfMeetingMessages>\<newline>'' @
          ''<t:ViewPrivateItems>'' @
          lower (str_bool vp) @
          ''</t:ViewPrivateItems>\<newline>'' @
          ''</t:DelegateUser>\<newline>'' @
          ''</m:DelegateUsers>\<newline>'' @
          ''<m:DeliverMeetingRequests>'' @
          dm @
          ''</m:DeliverMeetingRequests>\<newline>'' @
          ''</m:AddDelegate>\<newline>'' @
          ''</soap:Body>\<newline>'' @
          ''</soap:Envelope>''\<close>])
      simp
  have c3: \<open>\<exists>pre post. add_delegate_soap mgr d rc vp dm =
      pre @ ''<t:PrimarySmtpAddress>'' @ d @ ''</t:PrimarySmtpAddress>'' @ post\<close>
    unfolding add_delegate_soap_def
    by (rule exI[of _
         \<open>envelope_open @
          ''<m:AddDelegate>\<newline>'' @
          ''<m:Mailbox><t:EmailAddress>'' @
          owner_upn mgr @
          ''</t:EmailAddress></m:Mailbox>\<newline>'' @
          ''<m:DelegateUsers>\<newline>'' @
          ''<t:DelegateUser>\<newline>'' @
          ''<t:UserId>''\<close>],
        rule exI[of _
         \<open>''</t:UserId>\<newline>'' @
          ''<t:DelegatePermissions>\<newline>'' @
          ''<t:InboxFolderPermissionLevel>Reviewer</t:InboxFolderPermissionLevel>\<newline>'' @
          ''</t:DelegatePermissions>\<newline>'' @
          ''<t:ReceiveCopiesOfMeetingMessages>'' @
          lower (str_bool rc) @
          ''</t:ReceiveCopiesOfMeetingMessages>\<newline>'' @
          ''<t:ViewPrivateItems>'' @
          lower (str_bool vp) @
          ''</t:ViewPrivateItems>\<newline>'' @
          ''</t:DelegateUser>\<newline>'' @
          ''</m:DelegateUsers>\<newline>'' @
          ''<m:DeliverMeetingRequests>'' @
          dm @
          ''</m:DeliverMeetingRequests>\<newline>'' @
          ''</m:AddDelegate>\<newline>'' @
          ''</soap:Body>\<newline>'' @
          ''</soap:Envelope>''\<close>])
      simp
  have c4: \<open>\<exists>pre post. add_delegate_soap mgr d rc vp dm =
      pre @ ''<m:DeliverMeetingRequests>'' @ dm @ ''</m:DeliverMeetingRequests>'' @ post\<close>
    unfolding add_delegate_soap_def
    by (rule exI[of _
         \<open>envelope_open @
          ''<m:AddDelegate>\<newline>'' @
          ''<m:Mailbox><t:EmailAddress>'' @
          owner_upn mgr @
          ''</t:EmailAddress></m:Mailbox>\<newline>'' @
          ''<m:DelegateUsers>\<newline>'' @
          ''<t:DelegateUser>\<newline>'' @
          ''<t:UserId><t:PrimarySmtpAddress>'' @
          d @
          ''</t:PrimarySmtpAddress></t:UserId>\<newline>'' @
          ''<t:DelegatePermissions>\<newline>'' @
          ''<t:InboxFolderPermissionLevel>Reviewer</t:InboxFolderPermissionLevel>\<newline>'' @
          ''</t:DelegatePermissions>\<newline>'' @
          ''<t:ReceiveCopiesOfMeetingMessages>'' @
          lower (str_bool rc) @
          ''</t:ReceiveCopiesOfMeetingMessages>\<newline>'' @
          ''<t:ViewPrivateItems>'' @
          lower (str_bool vp) @
          ''</t:ViewPrivateItems>\<newline>'' @
          ''</t:DelegateUser>\<newline>'' @
          ''</m:DelegateUsers>\<newline>''\<close>],
        rule exI[of _
         \<open>''\<newline>'' @
          ''</m:AddDelegate>\<newline>'' @
          ''</soap:Body>\<newline>'' @
          ''</soap:Envelope>''\<close>])
      simp
  have c5: \<open>\<exists>pre post. update_delegate_soap mgr d level =
      pre @ ''<t:EmailAddress>'' @ owner_upn mgr @ ''</t:EmailAddress>'' @ post\<close>
    unfolding update_delegate_soap_def
    by (rule exI[of _
         \<open>envelope_open @
          ''<m:UpdateDelegate>\<newline>'' @
          ''<m:Mailbox>''\<close>],
        rule exI[of _
         \<open>''</m:Mailbox>\<newline>'' @
          ''<m:DelegateUsers>\<newline>'' @
          ''<t:DelegateUser>\<newline>'' @
          ''<t:UserId><t:PrimarySmtpAddress>'' @
          d @
          ''</t:PrimarySmtpAddress></t:UserId>\<newline>'' @
          ''<t:DelegatePermissions>\<newline>'' @
          ''<t:InboxFolderPermissionLevel>'' @
          level @
          ''</t:InboxFolderPermissionLevel>\<newline>'' @
          ''</t:DelegatePermissions>\<newline>'' @
          ''</t:DelegateUser>\<newline>'' @
          ''</m:DelegateUsers>\<newline>'' @
          ''<m:DeliverMeetingRequests>DelegatesAndSendInformationToMe</m:DeliverMeetingRequests>\<newline>'' @
          ''</m:UpdateDelegate>\<newline>'' @
          ''</soap:Body>\<newline>'' @
          ''</soap:Envelope>''\<close>])
      simp
  have c6: \<open>\<exists>pre post. update_delegate_soap mgr d level =
      pre @ ''<t:PrimarySmtpAddress>'' @ d @ ''</t:PrimarySmtpAddress>'' @ post\<close>
    unfolding update_delegate_soap_def
    by (rule exI[of _
         \<open>envelope_open @
          ''<m:UpdateDelegate>\<newline>'' @
          ''<m:Mailbox><t:EmailAddress>'' @
          owner_upn mgr @
          ''</t:EmailAddress></m:Mailbox>\<newline>'' @
          ''<m:DelegateUsers>\<newline>'' @
          ''<t:DelegateUser>\<newline>'' @
          ''<t:UserId>''\<close>],
        rule exI[of _
         \<open>''</t:UserId>\<newline>'' @
          ''<t:DelegatePermissions>\<newline>'' @
          ''<t:InboxFolderPermissionLevel>'' @
          level @
          ''</t:InboxFolderPermissionLevel>\<newline>'' @
          ''</t:DelegatePermissions>\<newline>'' @
          ''</t:DelegateUser>\<newline>'' @
          ''</m:DelegateUsers>\<newline>'' @
          ''<m:DeliverMeetingRequests>DelegatesAndSendInformationToMe</m:DeliverMeetingRequests>\<newline>'' @
          ''</m:UpdateDelegate>\<newline>'' @
          ''</soap:Body>\<newline>'' @
          ''</soap:Envelope>''\<close>])
      simp
  have c7: \<open>\<exists>pre post. update_delegate_soap mgr d level =
      pre @ ''<t:InboxFolderPermissionLevel>'' @ level @ ''</t:InboxFolderPermissionLevel>'' @ post\<close>
    unfolding update_delegate_soap_def
    by (rule exI[of _
         \<open>envelope_open @
          ''<m:UpdateDelegate>\<newline>'' @
          ''<m:Mailbox><t:EmailAddress>'' @
          owner_upn mgr @
          ''</t:EmailAddress></m:Mailbox>\<newline>'' @
          ''<m:DelegateUsers>\<newline>'' @
          ''<t:DelegateUser>\<newline>'' @
          ''<t:UserId><t:PrimarySmtpAddress>'' @
          d @
          ''</t:PrimarySmtpAddress></t:UserId>\<newline>'' @
          ''<t:DelegatePermissions>\<newline>''\<close>],
        rule exI[of _
         \<open>''\<newline>'' @
          ''</t:DelegatePermissions>\<newline>'' @
          ''</t:DelegateUser>\<newline>'' @
          ''</m:DelegateUsers>\<newline>'' @
          ''<m:DeliverMeetingRequests>DelegatesAndSendInformationToMe</m:DeliverMeetingRequests>\<newline>'' @
          ''</m:UpdateDelegate>\<newline>'' @
          ''</soap:Body>\<newline>'' @
          ''</soap:Envelope>''\<close>])
      simp
  show ?thesis
    using c1 c2 c3 c4 c5 c6 c7 wf_benign wf_lt by blast
qed

section \<open>Failures of the transport\<close>















section \<open>Calling twice\<close>

lemma ensure_after_read:
  "get_inbox_level ext cmt mgr wd = (Inr recs, wa) \<Longrightarrow>
   ensure_inbox_reviewer ext cmt mgr d wd =
     (case found_level recs (lower d) of
        None \<Rightarrow> add_delegate_inbox_reviewer ext mgr d False False ''DelegatesAndSendInformationToMe'' wa
      | Some lv \<Rightarrow>
          if lv \<noteq> ''Reviewer'' then update_delegate_inbox ext mgr d ''Reviewer'' wa
          else (Inr (True, Some ''Already Reviewer''), wa))"
  by (simp add: ensure_inbox_reviewer_def)

lemma ensure_satisfied:
  assumes "get_inbox_level ext cmt mgr w = (Inr recs, w')"
    and "List.find (\<lambda>(u, l). lower u = lower d) recs = Some (u, Some ''Reviewer'')"
  shows "ensure_inbox_reviewer ext cmt mgr d w = (Inr (True, Some ''Already Reviewer''), w')"
    and "sent w' = sent w @ [ews_request mgr (get_inbox_level_soap cmt mgr) (Some (owner_upn mgr))]"
  using found_level_first[OF assms] get_inbox_level_sent[OF assms(1)]
  by (simp_all add: ensure_after_read[OF assms(1)])

text \<open>
  C4. Two calls of \<open>ensure_inbox_reviewer\<close> in a row, for any server, any parser and any
  delegate. The first read succeeds and returns \<open>recs\<close>. The server is one whose writes
  succeed and take effect: the write the first call issues (AddDelegate when the scan
  finds no level, UpdateDelegate when it finds a level other than \<open>Reviewer\<close>) returns
  success, and a read after it has the entry of the target at \<open>Reviewer\<close>. And it is
  stable: when the first call finds \<open>Reviewer\<close> and writes nothing, reading again finds
  \<open>Reviewer\<close> again. Then both calls return success, the second with \<open>Already Reviewer\<close>;
  the first call sends the GetDelegate request and at most one write, and the second
  call sends one GetDelegate request and no write. (No server takes effect in this sense
  for a target that is empty or white space only: the read skips such an address.)
\<close>

theorem ensure_twice:
  assumes read: "get_inbox_level ext cmt mgr wd = (Inr recs, wa)"
    and add_ok: "found_level recs (lower d) = None \<Longrightarrow>
        \<exists>m wb recs' wc u.
          add_delegate_inbox_reviewer ext mgr d False False ''DelegatesAndSendInformationToMe'' wa =
            (Inr (True, m), wb)
          \<and> get_inbox_level ext cmt mgr wb = (Inr recs', wc)
          \<and> List.find (\<lambda>(u, l). lower u = lower d) recs' = Some (u, Some ''Reviewer'')"
    and update_ok: "\<And>lv. found_level recs (lower d) = Some lv \<Longrightarrow> lv \<noteq> ''Reviewer'' \<Longrightarrow>
        \<exists>m wb recs' wc u.
          update_delegate_inbox ext mgr d ''Reviewer'' wa = (Inr (True, m), wb)
          \<and> get_inbox_level ext cmt mgr wb = (Inr recs', wc)
          \<and> List.find (\<lambda>(u, l). lower u = lower d) recs' = Some (u, Some ''Reviewer'')"
    and stable: "found_level recs (lower d) = Some ''Reviewer'' \<Longrightarrow>
        \<exists>recs' wc u.
          get_inbox_level ext cmt mgr wa = (Inr recs', wc)
          \<and> List.find (\<lambda>(u, l). lower u = lower d) recs' = Some (u, Some ''Reviewer'')"
  shows "(\<exists>m. fst (ensure_inbox_reviewer ext cmt mgr d wd) = Inr (True, m))
       \<and> fst (ensure_inbox_reviewer ext cmt mgr d (snd (ensure_inbox_reviewer ext cmt mgr d wd))) =
           Inr (True, Some ''Already Reviewer'')
       \<and> (\<exists>writes. writes \<in> {[], [add_request mgr d], [update_request mgr d]}
            \<and> sent (snd (ensure_inbox_reviewer ext cmt mgr d wd)) = sent wd @ [get_request cmt mgr] @ writes
            \<and> sent (snd (ensure_inbox_reviewer ext cmt mgr d (snd (ensure_inbox_reviewer ext cmt mgr d wd)))) =
                sent wd @ [get_request cmt mgr] @ writes @ [get_request cmt mgr])"
proof (cases "found_level recs (lower d)")
  case None
  from add_ok[OF None] obtain m wb recs' wc u where
    a: "add_delegate_inbox_reviewer ext mgr d False False ''DelegatesAndSendInformationToMe'' wa =
            (Inr (True, m), wb)"
    and g: "get_inbox_level ext cmt mgr wb = (Inr recs', wc)"
    and f: "List.find (\<lambda>(u, l). lower u = lower d) recs' = Some (u, Some ''Reviewer'')"
    by blast
  have e1: "ensure_inbox_reviewer ext cmt mgr d wd = (Inr (True, m), wb)"
    using None a by (simp add: ensure_after_read[OF read])
  have s1: "sent wb = sent wd @ [get_request cmt mgr] @ [add_request mgr d]"
    using add_delegate_sent[OF a] get_inbox_level_sent[OF read] by simp
  show ?thesis
    using e1 s1 ensure_satisfied[OF g f] by auto
next
  case (Some lv)
  show ?thesis
  proof (cases "lv = ''Reviewer''")
    case True
    from stable Some True obtain recs' wc u where
      g: "get_inbox_level ext cmt mgr wa = (Inr recs', wc)"
      and f: "List.find (\<lambda>(u, l). lower u = lower d) recs' = Some (u, Some ''Reviewer'')"
      by blast
    have e1: "ensure_inbox_reviewer ext cmt mgr d wd = (Inr (True, Some ''Already Reviewer''), wa)"
      using Some True by (simp add: ensure_after_read[OF read])
    have s1: "sent wa = sent wd @ [get_request cmt mgr] @ []"
      using get_inbox_level_sent[OF read] by simp
    show ?thesis
      using e1 s1 ensure_satisfied[OF g f] by auto
  next
    case False
    from update_ok[OF Some False] obtain m wb recs' wc u where
      a: "update_delegate_inbox ext mgr d ''Reviewer'' wa = (Inr (True, m), wb)"
      and g: "get_inbox_level ext cmt mgr wb = (Inr recs', wc)"
      and f: "List.find (\<lambda>(u, l). lower u = lower d) recs' = Some (u, Some ''Reviewer'')"
      by blast
    have e1: "ensure_inbox_reviewer ext cmt mgr d wd = (Inr (True, m), wb)"
      using Some False a by (simp add: ensure_after_read[OF read])
    have s1: "sent wb = sent wd @ [get_request cmt mgr] @ [update_request mgr d]"
      using update_delegate_sent[OF a] get_inbox_level_sent[OF read] by simp
    show ?thesis
      using e1 s1 ensure_satisfied[OF g f] by auto
  qed
qed


lemma found_listed:
  "found_level [(''a@x.com'', Some ''Reviewer'')] ''b@x.com'' = None"
  "found_level [(''a@x.com'', Some ''Reviewer''), (''b@x.com'', Some ''Author'')] ''b@x.com'' = Some ''Author''"
  "found_level [(''a@x.com'', Some ''Reviewer''), (''b@x.com'', Some ''Reviewer'')] ''b@x.com'' = Some ''Reviewer''"
  by simp_all

lemma find_listed:
  "List.find (\<lambda>(u, l). lower u = ''b@x.com'')
     [(''a@x.com'', Some ''Reviewer''), (''b@x.com'', Some ''Reviewer'')] = Some (''b@x.com'', Some ''Reviewer'')"
  by (simp add: lower_a)

theorem ensure_twice_witness:
  "ensure_inbox_reviewer mock cmt0 mgr0 ''b@x.com'' (fresh Absent) =
     (Inr (True, Some ''AddDelegate Success''), \<lparr>sent = [get_req0, add_req0], server = Reviewer\<rparr>)
   \<and> fst (ensure_inbox_reviewer mock cmt0 mgr0 ''b@x.com'' \<lparr>sent = [get_req0, add_req0], server = Reviewer\<rparr>) =
       Inr (True, Some ''Already Reviewer'')
   \<and> sent (snd (ensure_inbox_reviewer mock cmt0 mgr0 ''b@x.com'' \<lparr>sent = [get_req0, add_req0], server = Reviewer\<rparr>)) =
       [get_req0, add_req0, get_req0]
   \<and> ensure_inbox_reviewer mock cmt0 mgr0 ''b@x.com'' (fresh Author) =
     (Inr (True, Some ''UpdateDelegate Success''), \<lparr>sent = [get_req0, upd_req0], server = Reviewer\<rparr>)
   \<and> fst (ensure_inbox_reviewer mock cmt0 mgr0 ''b@x.com'' \<lparr>sent = [get_req0, upd_req0], server = Reviewer\<rparr>) =
       Inr (True, Some ''Already Reviewer'')
   \<and> sent (snd (ensure_inbox_reviewer mock cmt0 mgr0 ''b@x.com'' \<lparr>sent = [get_req0, upd_req0], server = Reviewer\<rparr>)) =
       [get_req0, upd_req0, get_req0]
   \<and> ensure_inbox_reviewer mock cmt0 mgr0 ''b@x.com'' (fresh Reviewer) =
     (Inr (True, Some ''Already Reviewer''), \<lparr>sent = [get_req0], server = Reviewer\<rparr>)
   \<and> fst (ensure_inbox_reviewer mock cmt0 mgr0 ''b@x.com'' \<lparr>sent = [get_req0], server = Reviewer\<rparr>) =
       Inr (True, Some ''Already Reviewer'')
   \<and> sent (snd (ensure_inbox_reviewer mock cmt0 mgr0 ''b@x.com'' \<lparr>sent = [get_req0], server = Reviewer\<rparr>)) =
       [get_req0, get_req0]"
proof -
  have rev: "Reviewer \<in> {NoLevel, Author, Reviewer}" and aut: "Author \<in> {NoLevel, Author, Reviewer}"
    by simp_all
  have e1: "ensure_inbox_reviewer mock cmt0 mgr0 ''b@x.com'' (fresh Absent) =
     (Inr (True, Some ''AddDelegate Success''), \<lparr>sent = [get_req0, add_req0], server = Reviewer\<rparr>)"
    using mock_reads(1)[of "[]"] mock_add(1)[of "[get_req0]"]
    by (simp add: ensure_inbox_reviewer_def fresh_def lower_a)
  have e2: "ensure_inbox_reviewer mock cmt0 mgr0 ''b@x.com'' (fresh Author) =
     (Inr (True, Some ''UpdateDelegate Success''), \<lparr>sent = [get_req0, upd_req0], server = Reviewer\<rparr>)"
    using mock_reads(3)[of "[]"] mock_update[OF aut, of "[get_req0]"]
    by (simp add: ensure_inbox_reviewer_def fresh_def lower_a)
  have e3: "ensure_inbox_reviewer mock cmt0 mgr0 ''b@x.com'' (fresh Reviewer) =
     (Inr (True, Some ''Already Reviewer''), \<lparr>sent = [get_req0], server = Reviewer\<rparr>)"
    using mock_reads(4)[of "[]"]
    by (simp add: ensure_inbox_reviewer_def fresh_def lower_a)
  have t1: "fst (ensure_inbox_reviewer mock cmt0 mgr0 ''b@x.com'' \<lparr>sent = [get_req0, add_req0], server = Reviewer\<rparr>) =
       Inr (True, Some ''Already Reviewer'')
     \<and> sent (snd (ensure_inbox_reviewer mock cmt0 mgr0 ''b@x.com'' \<lparr>sent = [get_req0, add_req0], server = Reviewer\<rparr>)) =
       [get_req0, add_req0, get_req0]"
    using ensure_twice[where ext = mock and cmt = cmt0 and mgr = mgr0 and d = "''b@x.com''"
        and wd = "fresh Absent" and recs = "[(''a@x.com'', Some ''Reviewer'')]"
        and wa = "\<lparr>sent = [get_req0], server = Absent\<rparr>"]
      mock_reads(1)[of "[]"] mock_add(1)[of "[get_req0]"] mock_reads(4)[of "[get_req0, add_req0]"] e1
    by (simp add: fresh_def lower_a)
  have t2: "fst (ensure_inbox_reviewer mock cmt0 mgr0 ''b@x.com'' \<lparr>sent = [get_req0, upd_req0], server = Reviewer\<rparr>) =
       Inr (True, Some ''Already Reviewer'')
     \<and> sent (snd (ensure_inbox_reviewer mock cmt0 mgr0 ''b@x.com'' \<lparr>sent = [get_req0, upd_req0], server = Reviewer\<rparr>)) =
       [get_req0, upd_req0, get_req0]"
    using ensure_twice[where ext = mock and cmt = cmt0 and mgr = mgr0 and d = "''b@x.com''"
        and wd = "fresh Author" and recs = "[(''a@x.com'', Some ''Reviewer''), (''b@x.com'', Some ''Author'')]"
        and wa = "\<lparr>sent = [get_req0], server = Author\<rparr>"]
      mock_reads(3)[of "[]"] mock_update[OF aut, of "[get_req0]"] mock_reads(4)[of "[get_req0, upd_req0]"] e2
    by (simp add: fresh_def lower_a)
  have t3: "fst (ensure_inbox_reviewer mock cmt0 mgr0 ''b@x.com'' \<lparr>sent = [get_req0], server = Reviewer\<rparr>) =
       Inr (True, Some ''Already Reviewer'')
     \<and> sent (snd (ensure_inbox_reviewer mock cmt0 mgr0 ''b@x.com'' \<lparr>sent = [get_req0], server = Reviewer\<rparr>)) =
       [get_req0, get_req0]"
    using ensure_twice[where ext = mock and cmt = cmt0 and mgr = mgr0 and d = "''b@x.com''"
        and wd = "fresh Reviewer" and recs = "[(''a@x.com'', Some ''Reviewer''), (''b@x.com'', Some ''Reviewer'')]"
        and wa = "\<lparr>sent = [get_req0], server = Reviewer\<rparr>"]
      mock_reads(4)[of "[]"] mock_reads(4)[of "[get_req0]"] e3
    by (simp add: fresh_def lower_a)
  show ?thesis using e1 e2 e3 t1 t2 t3 by simp
qed

end
